theory Spec2Isabelle
  imports Complex_Main
begin

section \<open>Numbers\<close>

text \<open>
  A JavaScript number is an IEEE 754 double. Every arithmetic operation on doubles
  returns the exact result rounded to the nearest double, ties to even: \<open>fl\<close> is that
  rounding, to 53 significant bits, with the exponent range left unbounded (the values
  that arise here, from 32-bit dimensions and 8-bit channels, are far from overflow and
  underflow). \<open>fl\<close> is applied wherever the compositor's geometry, the complexity scores
  and the timer period are computed; a numeric literal \<^verbatim>\<open>c\<close> of the source is \<open>fl c\<close>.
  Clock readings and their differences are kept as exact reals.
\<close>

definition round_even :: "real \<Rightarrow> int" where
  "round_even x =
     (let f = \<lfloor>x\<rfloor>; r = x - of_int f
      in if r < 1 / 2 then f
         else if 1 / 2 < r then f + 1
         else if even f then f else f + 1)"

definition fl :: "real \<Rightarrow> real" where
  "fl x =
     (if x = 0 then 0
      else (let e = \<lfloor>log 2 \<bar>x\<bar>\<rfloor>; q = 2 powi (e - 52)
            in of_int (round_even (x / q)) * q))"

section \<open>Host objects\<close>

text \<open>
  Element dimensions (unsigned longs of the DOM, so below \<open>2 ^ 32\<close>) are naturals, timer
  and animation-frame handles are naturals. The DOM elements a
  source refers to are owned by the caller and change between ticks, so a source holds a
  handle and every operation reads the element through the host record it is given. The
  host record also answers what the browser decides at that moment: whether
  \<^verbatim>\<open>drawImage\<close> raises for an element, \<^verbatim>\<open>document.hidden\<close>, whether \<^verbatim>\<open>window\<close> exists,
  whether \<^verbatim>\<open>getContext("2d")\<close> yields a context, and whether the captured video track has
  a \<^verbatim>\<open>requestFrame\<close> method.
\<close>

record HTMLCanvasElement =
  width :: nat
  height :: nat

record HTMLVideoElement =
  readyState :: nat
  videoWidth :: nat
  videoHeight :: nat
  paused :: bool

text \<open>The content hints \<^verbatim>\<open>"detail"\<close>, \<^verbatim>\<open>"motion"\<close> and \<^verbatim>\<open>""\<close>; the field is optional.\<close>

datatype contentHint = detail | motion | no_hint

text \<open>The tagged union \<^verbatim>\<open>StreamSource\<close>: the kind fixes the type of the element.\<close>

datatype StreamSource =
  canvas_source nat "contentHint option"
| video_source nat "contentHint option"

record host =
  canvases :: "nat \<Rightarrow> HTMLCanvasElement"
  videos :: "nat \<Rightarrow> HTMLVideoElement"
  drawImageRaises :: "StreamSource \<Rightarrow> bool"
  hidden :: bool
  hasWindow :: bool
  contextAvailable :: bool
  hasRequestFrame :: bool

text \<open>
  The 2D context: the attributes the orchestrator writes and the drawing calls it has
  issued, oldest first (the pixels written so far).
\<close>

datatype draw_op =
  FillRect string int int int int
| DrawImage StreamSource real int int int int

record Context2D =
  globalAlpha :: real
  globalCompositeOperation :: string
  fillStyle :: string
  drawn :: "draw_op list"

datatype dom_exception = InvalidStateError | IndexSizeError

definition fillRect :: "Context2D \<Rightarrow> int \<Rightarrow> int \<Rightarrow> int \<Rightarrow> int \<Rightarrow> Context2D" where
  "fillRect ctx x y w h = ctx\<lparr>drawn := drawn ctx @ [FillRect (fillStyle ctx) x y w h]\<rparr>"

text \<open>\<^verbatim>\<open>ctx.drawImage(el, dx, dy, dw, dh)\<close>: the host either raises or draws with the current alpha.\<close>

definition drawImage ::
  "host \<Rightarrow> Context2D \<Rightarrow> StreamSource \<Rightarrow> int \<Rightarrow> int \<Rightarrow> int \<Rightarrow> int \<Rightarrow> dom_exception + Context2D" where
  "drawImage hst ctx el dx dy dw dh =
     (if drawImageRaises hst el then Inl InvalidStateError
      else Inr (ctx\<lparr>drawn := drawn ctx @ [DrawImage el (globalAlpha ctx) dx dy dw dh]\<rparr>))"


section \<open>Timers and animation frames\<close>

text \<open>
  The event loop's registrations. Handles are allocated from one counter and are never
  zero, as the HTML standard requires; the code tests handles for truthiness.
\<close>

text \<open>The options of the complexity manager, which an analysis timer carries.\<close>

record ComplexityInjectionOptions =
  targetComplexity :: "real option"
  complexityType :: "string option"
  enableAnalysis :: "bool option"
  minComplexityThreshold :: "real option"
  maxIntensity :: "real option"
  analysisInterval :: "real option"

text \<open>The empty options object \<^verbatim>\<open>{}\<close>.\<close>

definition noOptions :: ComplexityInjectionOptions where
  "noOptions = \<lparr>targetComplexity = None, complexityType = None, enableAnalysis = None,
                  minComplexityThreshold = None, maxIntensity = None, analysisInterval = None\<rparr>"

datatype canvas_target = output_canvas | source_canvas nat

datatype interval_task =
  analysis_tick canvas_target ComplexityInjectionOptions
| background_tick

datatype timeout_task = kick nat | stability_wait

record Scheduler =
  lastHandle :: nat
  intervals :: "(nat \<times> interval_task \<times> real) list"
  frames :: "nat list"
  timeouts :: "(nat \<times> timeout_task \<times> real) list"

definition truthy :: "nat option \<Rightarrow> bool" where
  "truthy h = (case h of None \<Rightarrow> False | Some n \<Rightarrow> n \<noteq> 0)"

definition setInterval :: "interval_task \<Rightarrow> real \<Rightarrow> Scheduler \<Rightarrow> nat \<times> Scheduler" where
  "setInterval task ms s =
     (let h = Suc (lastHandle s)
      in (h, s\<lparr>lastHandle := h, intervals := intervals s @ [(h, task, ms)]\<rparr>))"

definition clearInterval :: "nat \<Rightarrow> Scheduler \<Rightarrow> Scheduler" where
  "clearInterval h s = s\<lparr>intervals := filter (\<lambda>e. fst e \<noteq> h) (intervals s)\<rparr>"

definition setTimeout :: "timeout_task \<Rightarrow> real \<Rightarrow> Scheduler \<Rightarrow> nat \<times> Scheduler" where
  "setTimeout task ms s =
     (let h = Suc (lastHandle s)
      in (h, s\<lparr>lastHandle := h, timeouts := timeouts s @ [(h, task, ms)]\<rparr>))"

definition requestAnimationFrame :: "Scheduler \<Rightarrow> nat \<times> Scheduler" where
  "requestAnimationFrame s =
     (let h = Suc (lastHandle s)
      in (h, s\<lparr>lastHandle := h, frames := frames s @ [h]\<rparr>))"

definition cancelAnimationFrame :: "nat \<Rightarrow> Scheduler \<Rightarrow> Scheduler" where
  "cancelAnimationFrame h s = s\<lparr>frames := removeAll h (frames s)\<rparr>"

section \<open>StreamComplexityManager: monitoring\<close>

record ImageData =
  iwidth :: nat
  iheight :: nat
  idata :: "nat list"

record StreamComplexityManager =
  previousFrameData :: "ImageData option"
  complexityHistory :: "real list"
  maxHistorySize :: nat
  isAnalyzing :: bool
  analysisIntervalHandle :: "nat option"

text \<open>
  \<^verbatim>\<open>startMonitoring\<close> and \<^verbatim>\<open>stopMonitoring\<close> act on the singleton manager and on
  the event loop. The interval callback is registered as \<open>analysis_tick\<close>; its body is
  \<open>analysisTick\<close> below. The class field \<^verbatim>\<open>analysisInterval\<close> is \<open>analysisIntervalHandle\<close>
  here, the option of the same name keeps its name.
\<close>

definition startMonitoring ::
  "canvas_target \<Rightarrow> ComplexityInjectionOptions \<Rightarrow> StreamComplexityManager \<times> Scheduler
     \<Rightarrow> StreamComplexityManager \<times> Scheduler" where
  "startMonitoring canvas options ms =
     (let m = fst ms; s = snd ms
      in if isAnalyzing m then ms
         else
           (let interval = (case analysisInterval options of None \<Rightarrow> 100 | Some i \<Rightarrow> i);
                m1 = m\<lparr>isAnalyzing := True\<rparr>;
                hs = setInterval (analysis_tick canvas options) interval s
            in (m1\<lparr>analysisIntervalHandle := Some (fst hs)\<rparr>, snd hs)))"

definition stopMonitoring ::
  "StreamComplexityManager \<times> Scheduler \<Rightarrow> StreamComplexityManager \<times> Scheduler" where
  "stopMonitoring ms =
     (let m = (fst ms)\<lparr>isAnalyzing := False\<rparr>; s = snd ms
      in if truthy (analysisIntervalHandle m)
         then (m\<lparr>analysisIntervalHandle := None\<rparr>, clearInterval (the (analysisIntervalHandle m)) s)
         else (m, s))"

definition reset ::
  "StreamComplexityManager \<times> Scheduler \<Rightarrow> StreamComplexityManager \<times> Scheduler" where
  "reset ms =
     (let ms1 = stopMonitoring ms
      in ((fst ms1)\<lparr>complexityHistory := [], previousFrameData := None\<rparr>, snd ms1))"

definition newManager :: StreamComplexityManager where
  "newManager = \<lparr>previousFrameData = None, complexityHistory = [], maxHistorySize = 30,
                  isAnalyzing = False, analysisIntervalHandle = None\<rparr>"

definition newScheduler :: Scheduler where
  "newScheduler = \<lparr>lastHandle = 0, intervals = [], frames = [], timeouts = []\<rparr>"

definition analysisTimers :: "Scheduler \<Rightarrow> nat list" where
  "analysisTimers s =
     map fst (filter (\<lambda>e. case fst (snd e) of analysis_tick _ _ \<Rightarrow> True | background_tick \<Rightarrow> False)
                (intervals s))"

text \<open>
  The states of manager and event loop that can be reached: by calls of the three
  methods, by analysis ticks (which write only the sample and the history), and by
  anything else that happens on the event loop and leaves the analysis timers alone.
\<close>

inductive monitoring_reachable :: "StreamComplexityManager \<times> Scheduler \<Rightarrow> bool" where
  mr_init: "monitoring_reachable (newManager, newScheduler)"
| mr_start: "monitoring_reachable ms \<Longrightarrow> monitoring_reachable (startMonitoring c opts ms)"
| mr_stop: "monitoring_reachable ms \<Longrightarrow> monitoring_reachable (stopMonitoring ms)"
| mr_reset: "monitoring_reachable ms \<Longrightarrow> monitoring_reachable (reset ms)"
| mr_other: "monitoring_reachable (m, s) \<Longrightarrow> analysisTimers s' = analysisTimers s \<Longrightarrow>
    monitoring_reachable (m\<lparr>complexityHistory := h, previousFrameData := p\<rparr>, s')"

section \<open>StreamComplexityManager: analysis and injection\<close>

text \<open>
  The manager reads pixels, so the canvas it is given carries the bitmap behind its 2D
  context (\<open>None\<close> when \<^verbatim>\<open>getContext("2d")\<close> returns null). A pixel is its four bytes
  R, G, B, A.
\<close>

type_synonym bitmap = "nat \<Rightarrow> nat \<Rightarrow> nat \<times> nat \<times> nat \<times> nat"

record PixelCanvas = HTMLCanvasElement +
  context2d :: "bitmap option"

record ComplexityMetrics =
  spatialComplexity :: real
  temporalComplexity :: real
  overallComplexity :: real
  frameVariance :: real
  isLowComplexity :: bool

text \<open>
  \<^verbatim>\<open>ctx.getImageData(0, 0, sw, sh)\<close>: rows top to bottom, four bytes per pixel; pixels outside
  the canvas are transparent black; a zero width or height raises.
\<close>

definition pixelBytes :: "PixelCanvas \<Rightarrow> bitmap \<Rightarrow> nat \<Rightarrow> nat \<Rightarrow> nat list" where
  "pixelBytes canvas bm x y =
     (if x < width canvas \<and> y < height canvas
      then (case bm x y of (r, g, b, a) \<Rightarrow> [r, g, b, a])
      else [0, 0, 0, 0])"

definition getImageData :: "PixelCanvas \<Rightarrow> bitmap \<Rightarrow> int \<Rightarrow> int \<Rightarrow> dom_exception + ImageData" where
  "getImageData canvas bm sw sh =
     (if sw = 0 \<or> sh = 0 then Inl IndexSizeError
      else Inr \<lparr>iwidth = nat \<bar>sw\<bar>, iheight = nat \<bar>sh\<bar>,
                idata = concat (map (\<lambda>y. concat (map (\<lambda>x. pixelBytes canvas bm x y) [0..<nat \<bar>sw\<bar>]))
                                 [0..<nat \<bar>sh\<bar>])\<rparr>)"

text \<open>
  \<^verbatim>\<open>(data[i] + data[i + 1] + data[i + 2]) / 3\<close>. The data of a sample holds four bytes
  for each of its width x height pixels (\<open>well_formed\<close> below, which \<^verbatim>\<open>getImageData\<close>
  guarantees); the loops below read such data within its range only, and previous data
  only when the previous sample has the same dimensions.
\<close>

definition gray :: "nat list \<Rightarrow> nat \<Rightarrow> real" where
  "gray d i = (real (d ! i) + real (d ! (i + 1)) + real (d ! (i + 2))) / 3"

definition spatialStep :: "ImageData \<Rightarrow> nat \<Rightarrow> nat \<Rightarrow> real \<times> nat \<Rightarrow> real \<times> nat" where
  "spatialStep imageData y x acc =
     (let d = idata imageData;
          i = (y * iwidth imageData + x) * 4;
          center = gray d i;
          right = gray d (i + 4);
          bottom = gray d (i + iwidth imageData * 4);
          gradientX = \<bar>right - center\<bar>;
          gradientY = \<bar>bottom - center\<bar>;
          gradient = sqrt (gradientX * gradientX + gradientY * gradientY)
      in (fst acc + gradient, Suc (snd acc)))"

definition calculateSpatialComplexity :: "ImageData \<Rightarrow> real" where
  "calculateSpatialComplexity imageData =
     (let acc = fold (\<lambda>y. fold (spatialStep imageData y) [1..<iwidth imageData - 1])
                  [1..<iheight imageData - 1] (0, 0);
          edgeSum = fst acc;
          pixelCount = snd acc
      in if pixelCount > 0 then edgeSum / real pixelCount / 255 else 0)"

function temporalLoop :: "nat list \<Rightarrow> nat list \<Rightarrow> nat \<Rightarrow> real \<Rightarrow> real" where
  "temporalLoop currentData previousData i diffSum =
     (if i < length currentData
      then temporalLoop currentData previousData (i + 4)
             (diffSum + \<bar>gray currentData i - gray previousData i\<bar>)
      else diffSum)"
  by pat_completeness auto
termination
  by (relation "measure (\<lambda>(c, p, i, s). length c - i)") auto

declare temporalLoop.simps [simp del]

definition calculateTemporalComplexity :: "StreamComplexityManager \<Rightarrow> ImageData \<Rightarrow> real" where
  "calculateTemporalComplexity m imageData =
     (case previousFrameData m of
        None \<Rightarrow> 0
      | Some prev \<Rightarrow>
          if iwidth prev \<noteq> iwidth imageData \<or> iheight prev \<noteq> iheight imageData then 0
          else
            (let currentData = idata imageData;
                 previousData = idata prev;
                 pixelCount = real (length currentData) / 4;
                 diffSum = temporalLoop currentData previousData 0 0
             in diffSum / pixelCount / 255))"

function varianceLoop :: "nat list \<Rightarrow> nat \<Rightarrow> real \<times> real \<Rightarrow> real \<times> real" where
  "varianceLoop d i acc =
     (if i < length d
      then varianceLoop d (i + 4) (fst acc + gray d i, snd acc + gray d i * gray d i)
      else acc)"
  by pat_completeness auto
termination
  by (relation "measure (\<lambda>(d, i, a). length d - i)") auto

declare varianceLoop.simps [simp del]

definition calculateFrameVariance :: "ImageData \<Rightarrow> real" where
  "calculateFrameVariance imageData =
     (let d = idata imageData;
          pixelCount = real (length d) / 4;
          acc = varianceLoop d 0 (0, 0);
          mean = fst acc / pixelCount;
          variance = snd acc / pixelCount - mean * mean
      in variance / (255 * 255))"

text \<open>
  \<^verbatim>\<open>analyzeFrameComplexity\<close> returns the metrics and leaves the manager with the sample
  and the history updated. When \<^verbatim>\<open>getImageData\<close> raises, the exception leaves the method
  before any field is written. A canvas with a zero dimension makes \<open>scale\<close> zero; the
  quotients are then infinite or NaN, which \<^verbatim>\<open>getImageData\<close> reads as 0 and rejects.
\<close>

definition analyzeFrameComplexity ::
  "StreamComplexityManager \<Rightarrow> PixelCanvas
     \<Rightarrow> dom_exception + (ComplexityMetrics \<times> StreamComplexityManager)" where
  "analyzeFrameComplexity m canvas =
     (case context2d canvas of
        None \<Rightarrow>
          Inr (\<lparr>spatialComplexity = 0, temporalComplexity = 0, overallComplexity = 0,
                frameVariance = 0, isLowComplexity = True\<rparr>, m)
      | Some bm \<Rightarrow>
          (let sampleSize = 128;
               scale = real (min (width canvas) (height canvas)) / sampleSize;
               sampleWidth = (if scale = 0 then 0 else \<lfloor>real (width canvas) / scale\<rfloor>);
               sampleHeight = (if scale = 0 then 0 else \<lfloor>real (height canvas) / scale\<rfloor>)
           in case getImageData canvas bm sampleWidth sampleHeight of
                Inl e \<Rightarrow> Inl e
              | Inr imageData \<Rightarrow>
                  (let spatial = calculateSpatialComplexity imageData;
                       temporal = calculateTemporalComplexity m imageData;
                       variance = calculateFrameVariance imageData;
                       overall = (spatial + temporal) / 2;
                       pushed = complexityHistory m @ [overall];
                       history = (if length pushed > maxHistorySize m then tl pushed else pushed);
                       isLow = (overall < 0.2)
                   in Inr (\<lparr>spatialComplexity = spatial, temporalComplexity = temporal,
                             overallComplexity = overall, frameVariance = variance,
                             isLowComplexity = isLow\<rparr>,
                           m\<lparr>complexityHistory := history, previousFrameData := Some imageData\<rparr>))))"

text \<open>
  The three generators read the clock and \<^verbatim>\<open>Math.random\<close> and write pixels; they are
  taken as given functions of width, height, intensity and bitmap.
  \<^verbatim>\<open>applyComplexityInjection\<close> dispatches on the type string; an unknown type matches no case.
\<close>

record Generators =
  injectNoise :: "nat \<Rightarrow> nat \<Rightarrow> real \<Rightarrow> bitmap \<Rightarrow> bitmap"
  injectMovement :: "nat \<Rightarrow> nat \<Rightarrow> real \<Rightarrow> bitmap \<Rightarrow> bitmap"
  injectDithering :: "nat \<Rightarrow> nat \<Rightarrow> real \<Rightarrow> bitmap \<Rightarrow> bitmap"

definition applyComplexityInjection ::
  "Generators \<Rightarrow> bitmap \<Rightarrow> PixelCanvas \<Rightarrow> string \<Rightarrow> real \<Rightarrow> bitmap" where
  "applyComplexityInjection gens ctx canvas type intensity =
     (let w = width canvas; h = height canvas
      in if type = ''noise'' then injectNoise gens w h intensity ctx
         else if type = ''movement'' then injectMovement gens w h intensity ctx
         else if type = ''dithering'' then injectDithering gens w h intensity ctx
         else if type = ''adaptive'' then
           injectDithering gens w h (intensity * 0.3)
             (injectMovement gens w h (intensity * 0.4)
               (injectNoise gens w h (intensity * 0.3) ctx))
         else ctx)"

definition injectComplexity ::
  "Generators \<Rightarrow> StreamComplexityManager \<Rightarrow> PixelCanvas \<Rightarrow> ComplexityInjectionOptions
     \<Rightarrow> dom_exception + (StreamComplexityManager \<times> PixelCanvas)" where
  "injectComplexity gens m canvas options =
     (let target = (case targetComplexity options of None \<Rightarrow> 0.3 | Some t \<Rightarrow> t);
          ctype = (case complexityType options of None \<Rightarrow> ''adaptive'' | Some t \<Rightarrow> t);
          maxI = (case maxIntensity options of None \<Rightarrow> 0.15 | Some i \<Rightarrow> i)
      in case context2d canvas of
           None \<Rightarrow> Inr (m, canvas)
         | Some ctx \<Rightarrow>
             (case analyzeFrameComplexity m canvas of
                Inl e \<Rightarrow> Inl e
              | Inr (metrics, m1) \<Rightarrow>
                  if isLowComplexity metrics then
                    (let injectionIntensity = min ((target - overallComplexity metrics) * 2) maxI
                     in if injectionIntensity > 0.01
                        then Inr (m1, canvas\<lparr>context2d :=
                                    Some (applyComplexityInjection gens ctx canvas ctype injectionIntensity)\<rparr>)
                        else Inr (m1, canvas))
                  else Inr (m1, canvas)))"

text \<open>The body of the interval callback that \<^verbatim>\<open>startMonitoring\<close> registers.\<close>

definition analysisTick ::
  "Generators \<Rightarrow> StreamComplexityManager \<Rightarrow> PixelCanvas \<Rightarrow> ComplexityInjectionOptions
     \<Rightarrow> dom_exception + (StreamComplexityManager \<times> PixelCanvas)" where
  "analysisTick gens m canvas options =
     (case context2d canvas of
        None \<Rightarrow> Inr (m, canvas)
      | Some _ \<Rightarrow> injectComplexity gens m canvas options)"

definition getAverageComplexity :: "StreamComplexityManager \<Rightarrow> real" where
  "getAverageComplexity m =
     (if length (complexityHistory m) = 0 then 0
      else sum_list (complexityHistory m) / real (length (complexityHistory m)))"

definition getCurrentMetrics ::
  "StreamComplexityManager \<Rightarrow> PixelCanvas \<Rightarrow> ComplexityMetrics option \<times> StreamComplexityManager" where
  "getCurrentMetrics m canvas =
     (case analyzeFrameComplexity m canvas of
        Inl _ \<Rightarrow> (None, m)
      | Inr (metrics, m1) \<Rightarrow> (Some metrics, m1))"

text \<open>
  The temporal score in the words of the specification: the mean, over the pixels of the
  sample, of the absolute difference of the luminance (the mean of R, G and B) between
  the sample and the previous one, divided by 255.
\<close>

definition luminance :: "ImageData \<Rightarrow> nat \<Rightarrow> real" where
  "luminance img p =
     (real (idata img ! (4 * p)) + real (idata img ! (4 * p + 1)) + real (idata img ! (4 * p + 2))) / 3"

definition spec_temporal :: "ImageData \<Rightarrow> ImageData \<Rightarrow> real" where
  "spec_temporal cur prev =
     (\<Sum>p < iwidth cur * iheight cur. \<bar>luminance cur p - luminance prev p\<bar>)
        / real (iwidth cur * iheight cur) / 255"

definition well_formed :: "ImageData \<Rightarrow> bool" where
  "well_formed img = (length (idata img) = 4 * iwidth img * iheight img)"

section \<open>StreamOrchestrator\<close>

datatype trackState = live | ended

record MediaStream =
  streamId :: string
  active :: bool
  videoTracks :: "trackState list"
  audioTracks :: "trackState list"

record BackgroundOptions =
  fps :: "real option"
  enableComplexityManagement :: "bool option"
  complexityOptions :: "ComplexityInjectionOptions option"
  onBackgroundFrame :: bool

text \<open>
  The fields of the class. \<open>visibilityHandler\<close> says whether the handler is set (and so
  registered on the document); \<open>onBackgroundFrame\<close> above whether the hook is given. The
  crossfade duration is a private field that is never assigned after its initialiser.
\<close>

record StreamOrchestrator =
  outputCanvas :: "HTMLCanvasElement option"
  outputCtx :: "Context2D option"
  outputStream :: "MediaStream option"
  animationId :: "nat option"
  currentSource :: "StreamSource option"
  pendingSource :: "StreamSource option"
  crossfadeStartMs :: "real option"
  initialized :: bool
  backgroundTimer :: "nat option"
  backgroundOptions :: "BackgroundOptions option"
  visibilityHandler :: bool

definition crossfadeDurationMs :: real where
  "crossfadeDurationMs = 200"

definition STREAMING_CONFIG_WIDTH :: nat where "STREAMING_CONFIG_WIDTH = 512"
definition STREAMING_CONFIG_HEIGHT :: nat where "STREAMING_CONFIG_HEIGHT = 512"
definition STREAMING_CONFIG_FPS :: real where "STREAMING_CONFIG_FPS = 30"

text \<open>
  The orchestrator together with what it acts on: the singleton complexity manager, the
  event loop, the number of \<^verbatim>\<open>requestFrame\<close> calls made on the video track, the number of
  \<^verbatim>\<open>onBackgroundFrame\<close> calls, and the videos it has asked to play. Writes to the track's
  content hint and constraints are left out: nothing reads them back.
\<close>

record World =
  orch :: StreamOrchestrator
  manager :: StreamComplexityManager
  sched :: Scheduler
  frameRequests :: nat
  backgroundFrames :: nat
  playCalls :: "nat list"

text \<open>\<^verbatim>\<open>el.videoWidth ?? el.width\<close> and \<^verbatim>\<open>el.videoHeight ?? el.height\<close>.\<close>

fun intrinsicWidth :: "host \<Rightarrow> StreamSource \<Rightarrow> nat" where
  "intrinsicWidth hst (video_source r _) = videoWidth (videos hst r)"
| "intrinsicWidth hst (canvas_source r _) = width (canvases hst r)"

fun intrinsicHeight :: "host \<Rightarrow> StreamSource \<Rightarrow> nat" where
  "intrinsicHeight hst (video_source r _) = videoHeight (videos hst r)"
| "intrinsicHeight hst (canvas_source r _) = height (canvases hst r)"

fun isSourceReady :: "host \<Rightarrow> StreamSource \<Rightarrow> bool" where
  "isSourceReady hst (video_source r _) =
     (readyState (videos hst r) \<ge> 2 \<and> videoWidth (videos hst r) > 0 \<and> videoHeight (videos hst r) > 0)"
| "isSourceReady hst (canvas_source r _) =
     (width (canvases hst r) > 0 \<and> height (canvases hst r) > 0)"

text \<open>
  \<^verbatim>\<open>blitSource\<close>. The scale, the products and the halved margins are doubles;
  \<^verbatim>\<open>Math.floor\<close> of a double is exact.
\<close>

definition blitSource ::
  "host \<Rightarrow> StreamOrchestrator \<Rightarrow> StreamSource \<Rightarrow> real \<Rightarrow> StreamOrchestrator" where
  "blitSource hst st source alpha =
     (case outputCtx st of
        None \<Rightarrow> st
      | Some ctx \<Rightarrow>
          (case outputCanvas st of
             None \<Rightarrow> st
           | Some cv \<Rightarrow>
               (let w = width cv;
                    h = height cv;
                    sw = intrinsicWidth hst source;
                    sh = intrinsicHeight hst source
                in if sw = 0 \<or> sh = 0 then st
                   else
                     (let scale = min (fl (real w / real sw)) (fl (real h / real sh));
                          dw = \<lfloor>fl (real sw * scale)\<rfloor>;
                          dh = \<lfloor>fl (real sh * scale)\<rfloor>;
                          dx = \<lfloor>fl (fl (real w - real_of_int dw) / 2)\<rfloor>;
                          dy = \<lfloor>fl (fl (real h - real_of_int dh) / 2)\<rfloor>;
                          prevAlpha = globalAlpha ctx;
                          ctx1 = ctx\<lparr>globalAlpha := max 0 (min 1 alpha)\<rparr>;
                          ctx2 = (case drawImage hst ctx1 source dx dy dw dh of
                                    Inl _ \<Rightarrow> ctx1
                                  | Inr c \<Rightarrow> c)
                      in st\<lparr>outputCtx := Some (ctx2\<lparr>globalAlpha := prevAlpha\<rparr>)\<rparr>))))"

text \<open>
  The part of the frame callback \<^verbatim>\<open>draw\<close> between reading the clock and the marker
  pixel: the crossfade bookkeeping and the blits.
\<close>

definition drawSources :: "host \<Rightarrow> real \<Rightarrow> StreamOrchestrator \<Rightarrow> StreamOrchestrator" where
  "drawSources hst now st0 =
     (let st = (case pendingSource st0 of
                  None \<Rightarrow> st0
                | Some p \<Rightarrow>
                    if isSourceReady hst p \<and> crossfadeStartMs st0 = None
                    then st0\<lparr>crossfadeStartMs := Some now\<rparr> else st0)
      in if pendingSource st \<noteq> None \<and> crossfadeStartMs st \<noteq> None \<and> currentSource st \<noteq> None
         then
           (let t = min 1 ((now - the (crossfadeStartMs st)) / crossfadeDurationMs);
                st1 = blitSource hst st (the (currentSource st)) (1 - t);
                st2 = blitSource hst st1 (the (pendingSource st)) t
            in if t \<ge> 1
               then st2\<lparr>currentSource := pendingSource st, pendingSource := None,
                        crossfadeStartMs := None\<rparr>
               else st2)
         else if pendingSource st \<noteq> None \<and> currentSource st = None
         then
           (if isSourceReady hst (the (pendingSource st))
            then (blitSource hst st (the (pendingSource st)) 1)
                   \<lparr>currentSource := pendingSource st, pendingSource := None,
                    crossfadeStartMs := None\<rparr>
            else st)
         else if currentSource st \<noteq> None
         then blitSource hst st (the (currentSource st)) 1
         else st)"

definition hasTrack :: "StreamOrchestrator \<Rightarrow> bool" where
  "hasTrack st = (case outputStream st of None \<Rightarrow> False | Some ms \<Rightarrow> videoTracks ms \<noteq> [])"

definition requestFrame :: "host \<Rightarrow> World \<Rightarrow> World" where
  "requestFrame hst w =
     (if hasTrack (orch w) \<and> hasRequestFrame hst
      then w\<lparr>frameRequests := Suc (frameRequests w)\<rparr> else w)"

definition draw :: "host \<Rightarrow> real \<Rightarrow> World \<Rightarrow> World" where
  "draw hst now w =
     (case outputCanvas (orch w) of
        None \<Rightarrow> w
      | Some cv \<Rightarrow>
          (case outputCtx (orch w) of
             None \<Rightarrow> w
           | Some ctx \<Rightarrow>
               (let cw = int (width cv);
                    ch = int (height cv);
                    ctx1 = fillRect (ctx\<lparr>globalCompositeOperation := ''source-over'',
                                         fillStyle := ''#000000''\<rparr>) 0 0 cw ch;
                    st1 = drawSources hst now ((orch w)\<lparr>outputCtx := Some ctx1\<rparr>);
                    st2 = st1\<lparr>outputCtx :=
                            map_option (\<lambda>c. fillRect (c\<lparr>fillStyle := ''rgba(255, 0, 0, 0.01)''\<rparr>)
                                               (cw - 1) (ch - 1) 1 1) (outputCtx st1)\<rparr>;
                    w1 = requestFrame hst (w\<lparr>orch := st2\<rparr>);
                    hs = requestAnimationFrame (sched w1)
                in w1\<lparr>orch := (orch w1)\<lparr>animationId := Some (fst hs)\<rparr>, sched := snd hs\<rparr>)))"

text \<open>The event loop runs a pending animation-frame request once.\<close>

definition animationFrame :: "host \<Rightarrow> real \<Rightarrow> nat \<Rightarrow> World \<Rightarrow> World" where
  "animationFrame hst now h w =
     (if h \<in> set (frames (sched w))
      then draw hst now (w\<lparr>sched := cancelAnimationFrame h (sched w)\<rparr>)
      else w)"

definition start :: "World \<Rightarrow> World" where
  "start w =
     (if truthy (animationId (orch w)) \<or> outputCanvas (orch w) = None \<or> outputCtx (orch w) = None
      then w
      else
        (let waitTime = max (1000 / STREAMING_CONFIG_FPS * 2) 100;
             s1 = snd (setTimeout stability_wait waitTime (sched w));
             hs = requestAnimationFrame s1
         in w\<lparr>orch := (orch w)\<lparr>animationId := Some (fst hs)\<rparr>, sched := snd hs\<rparr>))"

definition enabledComplexity :: "StreamOrchestrator \<Rightarrow> bool" where
  "enabledComplexity st =
     (case backgroundOptions st of
        None \<Rightarrow> False
      | Some opts \<Rightarrow> enableComplexityManagement opts = Some True)"

definition stopBackgroundStreaming :: "World \<Rightarrow> World" where
  "stopBackgroundStreaming w =
     (let w1 = (if truthy (backgroundTimer (orch w))
                then w\<lparr>sched := clearInterval (the (backgroundTimer (orch w))) (sched w),
                       orch := (orch w)\<lparr>backgroundTimer := None\<rparr>\<rparr>
                else w)
      in if enabledComplexity (orch w1)
         then (let ms = stopMonitoring (manager w1, sched w1)
               in w1\<lparr>manager := fst ms, sched := snd ms\<rparr>)
         else w1)"

text \<open>
  \<^verbatim>\<open>Math.max(10, Math.floor(1000 / fps))\<close>. With \<open>fps = 0\<close> the quotient is infinite, which
  the timer reads as a delay of 0.
\<close>

definition backgroundPeriod :: "real \<Rightarrow> real" where
  "backgroundPeriod f = (if f = 0 then 0 else max 10 (real_of_int \<lfloor>fl (1000 / f)\<rfloor>))"

definition startBackgroundStreaming :: "World \<Rightarrow> World" where
  "startBackgroundStreaming w =
     (case backgroundOptions (orch w) of
        None \<Rightarrow> w
      | Some opts \<Rightarrow>
          if outputCanvas (orch w) = None \<or> truthy (backgroundTimer (orch w)) then w
          else
            (let f = (case fps opts of None \<Rightarrow> STREAMING_CONFIG_FPS | Some v \<Rightarrow> v);
                 ms = (if enableComplexityManagement opts = Some True
                       then startMonitoring
                              (case currentSource (orch w) of
                                 Some (canvas_source r _) \<Rightarrow> source_canvas r
                               | _ \<Rightarrow> output_canvas)
                              (case complexityOptions opts of None \<Rightarrow> noOptions | Some c \<Rightarrow> c)
                              (manager w, sched w)
                       else (manager w, sched w));
                 period = backgroundPeriod f;
                 hs = setInterval background_tick period (snd ms)
             in w\<lparr>manager := fst ms, sched := snd hs,
                  orch := (orch w)\<lparr>backgroundTimer := Some (fst hs)\<rparr>\<rparr>))"

text \<open>The body of the background interval callback.\<close>

definition backgroundTick :: "host \<Rightarrow> World \<Rightarrow> World" where
  "backgroundTick hst w =
     (let w1 = (case backgroundOptions (orch w) of
                  None \<Rightarrow> w
                | Some opts \<Rightarrow>
                    if onBackgroundFrame opts
                    then w\<lparr>backgroundFrames := Suc (backgroundFrames w)\<rparr> else w)
      in requestFrame hst w1)"

text \<open>
  The handler registered for \<^verbatim>\<open>visibilitychange\<close>. On becoming visible it also resumes a
  paused current video and starts the chain of five \<^verbatim>\<open>requestFrame\<close> kicks, 30ms apart.
\<close>

definition kickChain :: "nat \<Rightarrow> World \<Rightarrow> World" where
  "kickChain kicks w =
     (let w1 = w\<lparr>frameRequests := Suc (frameRequests w)\<rparr>
      in if Suc kicks < 5
         then w1\<lparr>sched := snd (setTimeout (kick (Suc kicks)) 30 (sched w1))\<rparr>
         else w1)"

text \<open>The event loop runs the kick timeout with handle \<open>h\<close>.\<close>

definition kickTimeout :: "nat \<Rightarrow> World \<Rightarrow> World" where
  "kickTimeout h w =
     (case filter (\<lambda>e. fst e = h) (timeouts (sched w)) of
        (_, kick k, _) # _ \<Rightarrow>
          kickChain k (w\<lparr>sched := (sched w)\<lparr>timeouts := filter (\<lambda>e. fst e \<noteq> h) (timeouts (sched w))\<rparr>\<rparr>)
      | _ \<Rightarrow> w)"

definition visibilityHandlerBody :: "host \<Rightarrow> World \<Rightarrow> World" where
  "visibilityHandlerBody hst w =
     (if backgroundOptions (orch w) = None then w
      else if hidden hst then startBackgroundStreaming w
      else
        (let w1 = start (stopBackgroundStreaming w);
             w2 = (case currentSource (orch w1) of
                     Some (video_source r _) \<Rightarrow>
                       if paused (videos hst r) then w1\<lparr>playCalls := playCalls w1 @ [r]\<rparr> else w1
                   | _ \<Rightarrow> w1)
         in if hasTrack (orch w2) \<and> hasRequestFrame hst then kickChain 0 w2 else w2))"

definition visibilitychange :: "host \<Rightarrow> World \<Rightarrow> World" where
  "visibilitychange hst w =
     (if visibilityHandler (orch w) then visibilityHandlerBody hst w else w)"

definition updateBackgroundStreaming :: "host \<Rightarrow> World \<Rightarrow> World" where
  "updateBackgroundStreaming hst w =
     (let w1 = w\<lparr>orch := (orch w)\<lparr>visibilityHandler := False\<rparr>\<rparr>
      in if backgroundOptions (orch w1) = None then stopBackgroundStreaming w1
         else
           (let w2 = w1\<lparr>orch := (orch w1)\<lparr>visibilityHandler := True\<rparr>\<rparr>
            in if hidden hst then startBackgroundStreaming w2
               else stopBackgroundStreaming w2))"

definition setBackgroundOptions :: "host \<Rightarrow> BackgroundOptions option \<Rightarrow> World \<Rightarrow> World" where
  "setBackgroundOptions hst options w =
     updateBackgroundStreaming hst (w\<lparr>orch := (orch w)\<lparr>backgroundOptions := options\<rparr>\<rparr>)"

definition defaultBackgroundOptions :: BackgroundOptions where
  "defaultBackgroundOptions =
     \<lparr>fps = Some STREAMING_CONFIG_FPS, enableComplexityManagement = Some True,
      complexityOptions =
        Some \<lparr>targetComplexity = Some 0.3, complexityType = Some ''adaptive'',
              enableAnalysis = None, minComplexityThreshold = Some 0.15,
              maxIntensity = Some 0.2, analysisInterval = None\<rparr>,
      onBackgroundFrame = False\<rparr>"

definition ensureInitialized :: "host \<Rightarrow> World \<Rightarrow> World" where
  "ensureInitialized hst w =
     (if initialized (orch w) then w
      else if \<not> hasWindow hst then w
      else if \<not> contextAvailable hst then w
      else
        setBackgroundOptions hst (Some defaultBackgroundOptions)
          (w\<lparr>orch := (orch w)
               \<lparr>outputCanvas := Some \<lparr>width = STREAMING_CONFIG_WIDTH, height = STREAMING_CONFIG_HEIGHT\<rparr>,
                outputCtx := Some \<lparr>globalAlpha = 1, globalCompositeOperation = ''source-over'',
                                   fillStyle = ''#000000'', drawn = []\<rparr>,
                outputStream := Some \<lparr>streamId = ''output'', active = True,
                                      videoTracks = [live], audioTracks = [live]\<rparr>,
                initialized := True\<rparr>\<rparr>))"

definition getStream :: "host \<Rightarrow> World \<Rightarrow> MediaStream option \<times> World" where
  "getStream hst w = (let w1 = ensureInitialized hst w in (outputStream (orch w1), w1))"

definition setSource :: "host \<Rightarrow> StreamSource \<Rightarrow> World \<Rightarrow> World" where
  "setSource hst source w =
     (let w1 = ensureInitialized hst w;
          w2 = w1\<lparr>orch := (orch w1)\<lparr>pendingSource := Some source, crossfadeStartMs := None\<rparr>\<rparr>
      in if \<not> truthy (animationId (orch w2)) then start w2 else w2)"

definition stop :: "World \<Rightarrow> World" where
  "stop w =
     (let w1 = (if truthy (animationId (orch w))
                then w\<lparr>sched := cancelAnimationFrame (the (animationId (orch w))) (sched w),
                       orch := (orch w)\<lparr>animationId := None\<rparr>\<rparr>
                else w)
      in stopBackgroundStreaming w1)"

definition destroy :: "World \<Rightarrow> World" where
  "destroy w =
     (let w1 = stop w
      in w1\<lparr>orch := (orch w1)
              \<lparr>visibilityHandler := False, outputStream := None, outputCanvas := None,
               outputCtx := None, currentSource := None, pendingSource := None,
               initialized := False\<rparr>\<rparr>)"

definition newOrchestrator :: StreamOrchestrator where
  "newOrchestrator =
     \<lparr>outputCanvas = None, outputCtx = None, outputStream = None, animationId = None,
      currentSource = None, pendingSource = None, crossfadeStartMs = None,
      initialized = False, backgroundTimer = None, backgroundOptions = None,
      visibilityHandler = False\<rparr>"

definition newWorld :: World where
  "newWorld = \<lparr>orch = newOrchestrator, manager = newManager, sched = newScheduler,
               frameRequests = 0, backgroundFrames = 0, playCalls = []\<rparr>"

section \<open>StreamStabilizer\<close>

record StreamValidationOptions =
  minStableFrames :: "real option"
  timeoutMs :: "real option"
  validateAudio :: "bool option"

record StreamStabilizationResult =
  isStable :: bool
  frameCount :: nat
  timeElapsed :: real
  error :: "string option"

text \<open>
  The promise that \<^verbatim>\<open>performValidation\<close> returns once the synchronous checks have passed:
  the captured variables of its closures, whether the timeout is still armed, whether the
  hidden video element still listens for \<^verbatim>\<open>timeupdate\<close>, and the value it has resolved with.
\<close>

record Validation =
  signal :: nat
  requiredFrames :: real
  timeoutAfter :: real
  startTime :: real
  frames_seen :: nat
  lastFrameTime :: real
  timerArmed :: bool
  sinkAttached :: bool
  settled :: "StreamStabilizationResult option"

fun trackStateName :: "trackState \<Rightarrow> string" where
  "trackStateName live = ''live''"
| "trackStateName ended = ''ended''"

text \<open>
  \<^verbatim>\<open>performValidation\<close>: \<open>Inl\<close> is a result returned by one of the early returns, \<open>Inr\<close> the
  pending promise with its timer armed and its video element attached.
\<close>

definition performValidation ::
  "MediaStream \<Rightarrow> real \<Rightarrow> real \<Rightarrow> bool \<Rightarrow> nat \<Rightarrow> real \<Rightarrow> StreamStabilizationResult + Validation" where
  "performValidation stream minFrames timeout audio sig now =
     (if \<not> active stream then
        Inl \<lparr>isStable = False, frameCount = 0, timeElapsed = 0,
             error = Some ''Stream is not active''\<rparr>
      else if length (videoTracks stream) = 0 then
        Inl \<lparr>isStable = False, frameCount = 0, timeElapsed = 0,
             error = Some ''No video tracks found''\<rparr>
      else if audio \<and> length (audioTracks stream) = 0 then
        Inl \<lparr>isStable = False, frameCount = 0, timeElapsed = 0,
             error = Some ''No audio tracks found''\<rparr>
      else if hd (videoTracks stream) \<noteq> live then
        Inl \<lparr>isStable = False, frameCount = 0, timeElapsed = 0,
             error = Some (''Video track not live: '' @ trackStateName (hd (videoTracks stream)))\<rparr>
      else
        Inr \<lparr>signal = sig, requiredFrames = minFrames, timeoutAfter = timeout, startTime = now,
             frames_seen = 0, lastFrameTime = 0, timerArmed = True, sinkAttached = True,
             settled = None\<rparr>)"

definition cleanup :: "Validation \<Rightarrow> Validation" where
  "cleanup v = v\<lparr>timerArmed := False, sinkAttached := False\<rparr>"

text \<open>Resolving a promise that is already resolved does nothing.\<close>

definition resolve :: "StreamStabilizationResult \<Rightarrow> Validation \<Rightarrow> Validation" where
  "resolve r v = (case settled v of None \<Rightarrow> v\<lparr>settled := Some r\<rparr> | Some _ \<Rightarrow> v)"

definition onTimeout :: "real \<Rightarrow> Validation \<Rightarrow> Validation" where
  "onTimeout now v =
     (if timerArmed v
      then resolve \<lparr>isStable = False, frameCount = frames_seen v,
                    timeElapsed = now - startTime v, error = Some ''Validation timeout''\<rparr>
             (cleanup v)
      else v)"

definition onTimeUpdate :: "bool \<Rightarrow> real \<Rightarrow> real \<Rightarrow> Validation \<Rightarrow> Validation" where
  "onTimeUpdate aborted currentTime now v =
     (if \<not> sinkAttached v then v
      else if aborted then
        resolve \<lparr>isStable = False, frameCount = frames_seen v,
                 timeElapsed = now - startTime v, error = Some ''Validation aborted''\<rparr>
          (cleanup v)
      else if currentTime \<noteq> lastFrameTime v then
        (let v1 = v\<lparr>frames_seen := Suc (frames_seen v), lastFrameTime := currentTime\<rparr>
         in if real (frames_seen v1) \<ge> requiredFrames v1
            then resolve \<lparr>isStable = True, frameCount = frames_seen v1,
                          timeElapsed = now - startTime v1, error = None\<rparr>
                   (cleanup v1)
            else v1)
      else v)"

definition onPlayRejected :: "real \<Rightarrow> Validation \<Rightarrow> Validation" where
  "onPlayRejected now v =
     resolve \<lparr>isStable = False, frameCount = 0, timeElapsed = now - startTime v,
              error = Some ''Failed to play video for validation''\<rparr>
       (cleanup v)"

text \<open>
  One call of \<^verbatim>\<open>validateStreamStability\<close>: the stream id it was made for, what
  \<^verbatim>\<open>performValidation\<close> returned, and whether the code after the \<^verbatim>\<open>await\<close> has run.
  The k-th call creates abort controller k.
\<close>

record ValidationCall =
  forStream :: string
  inner :: "StreamStabilizationResult + Validation"
  returned :: bool

record StreamStabilizer =
  pendingValidations :: "string \<rightharpoonup> nat"
  abortedControllers :: "nat list"
  calls :: "ValidationCall list"

definition newStabilizer :: StreamStabilizer where
  "newStabilizer = \<lparr>pendingValidations = Map.empty, abortedControllers = [], calls = []\<rparr>"

definition abort :: "nat \<Rightarrow> StreamStabilizer \<Rightarrow> StreamStabilizer" where
  "abort c st = st\<lparr>abortedControllers := c # abortedControllers st\<rparr>"

definition validateStreamStability ::
  "MediaStream \<Rightarrow> StreamValidationOptions \<Rightarrow> real \<Rightarrow> StreamStabilizer \<Rightarrow> StreamStabilizer" where
  "validateStreamStability stream options now st =
     (let minFrames = (case minStableFrames options of None \<Rightarrow> 5 | Some n \<Rightarrow> n);
          timeout = (case timeoutMs options of None \<Rightarrow> 3000 | Some t \<Rightarrow> t);
          audio = (case validateAudio options of None \<Rightarrow> True | Some a \<Rightarrow> a);
          sid = streamId stream;
          st1 = (case pendingValidations st sid of None \<Rightarrow> st | Some c \<Rightarrow> abort c st);
          controller = length (calls st1);
          st2 = st1\<lparr>pendingValidations := (pendingValidations st1)(sid \<mapsto> controller)\<rparr>
      in st2\<lparr>calls := calls st2 @
               [\<lparr>forStream = sid,
                 inner = performValidation stream minFrames timeout audio controller now,
                 returned = False\<rparr>]\<rparr>)"

text \<open>The value call \<open>k\<close>'s inner promise has resolved with, if any.\<close>

definition innerResult :: "ValidationCall \<Rightarrow> StreamStabilizationResult option" where
  "innerResult c = (case inner c of Inl r \<Rightarrow> Some r | Inr v \<Rightarrow> settled v)"

text \<open>
  The continuation after the \<^verbatim>\<open>await\<close>: it runs once the inner promise has resolved,
  deletes the map entry of the stream id and returns the result.
\<close>

definition resume :: "nat \<Rightarrow> StreamStabilizer \<Rightarrow> StreamStabilizer" where
  "resume k st =
     (if k < length (calls st) \<and> \<not> returned (calls st ! k) \<and> innerResult (calls st ! k) \<noteq> None
      then st\<lparr>pendingValidations := (pendingValidations st)(forStream (calls st ! k) := None),
              calls := (calls st)[k := (calls st ! k)\<lparr>returned := True\<rparr>]\<rparr>
      else st)"

definition callResult :: "StreamStabilizer \<Rightarrow> nat \<Rightarrow> StreamStabilizationResult option" where
  "callResult st k =
     (if k < length (calls st) \<and> returned (calls st ! k) then innerResult (calls st ! k) else None)"

text \<open>Events delivered by the event loop to the validation of call \<open>k\<close>.\<close>

definition onValidation :: "(Validation \<Rightarrow> Validation) \<Rightarrow> nat \<Rightarrow> StreamStabilizer \<Rightarrow> StreamStabilizer" where
  "onValidation f k st =
     (if k < length (calls st)
      then (case inner (calls st ! k) of
              Inl _ \<Rightarrow> st
            | Inr v \<Rightarrow> st\<lparr>calls := (calls st)[k := (calls st ! k)\<lparr>inner := Inr (f v)\<rparr>]\<rparr>)
      else st)"

definition timeoutFires :: "nat \<Rightarrow> real \<Rightarrow> StreamStabilizer \<Rightarrow> StreamStabilizer" where
  "timeoutFires k now st = onValidation (onTimeout now) k st"

definition timeupdate :: "nat \<Rightarrow> real \<Rightarrow> real \<Rightarrow> StreamStabilizer \<Rightarrow> StreamStabilizer" where
  "timeupdate k currentTime now st =
     onValidation (onTimeUpdate (k \<in> set (abortedControllers st)) currentTime now) k st"

definition playRejected :: "nat \<Rightarrow> real \<Rightarrow> StreamStabilizer \<Rightarrow> StreamStabilizer" where
  "playRejected k now st = onValidation (onPlayRejected now) k st"

definition cancelAllValidations :: "StreamStabilizer \<Rightarrow> StreamStabilizer" where
  "cancelAllValidations st =
     st\<lparr>abortedControllers := [c. k \<leftarrow> map forStream (calls st), c \<leftarrow> (case pendingValidations st k of
                                                                      None \<Rightarrow> [] | Some c \<Rightarrow> [c])]
                               @ abortedControllers st,
        pendingValidations := Map.empty\<rparr>"

definition cancelValidation :: "string \<Rightarrow> StreamStabilizer \<Rightarrow> StreamStabilizer" where
  "cancelValidation sid st =
     (case pendingValidations st sid of
        None \<Rightarrow> st
      | Some c \<Rightarrow> (abort c st)\<lparr>pendingValidations := (pendingValidations st)(sid := None)\<rparr>)"

definition isAborted :: "StreamStabilizationResult \<Rightarrow> bool" where
  "isAborted r = (error r = Some ''Validation aborted'')"

section \<open>useStreamStabilizer\<close>

text \<open>
  The refs of the hook, the calls made to \<^verbatim>\<open>onStreamReady\<close> (oldest first), the delays
  of the timers that \<^verbatim>\<open>createStream\<close> has armed and that have not fired yet, and the
  number of \<^verbatim>\<open>createStream\<close> calls that have passed the guard and are suspended at one of
  the two awaits. The stream object behind \<open>streamRef\<close> is shared with the host, which may
  end its tracks.
\<close>

record HookState =
  streamRef :: "MediaStream option"
  streamCreatedRef :: bool
  readyCalls :: "MediaStream list"
  retryTimers :: "real list"
  suspended :: nat

text \<open>
  What the awaited steps of \<^verbatim>\<open>createStream\<close> produced: an exception, or the captured
  stream with the result of its validation.
\<close>

datatype attempt = raised | captured MediaStream StreamStabilizationResult

definition addTrack :: "MediaStream \<Rightarrow> MediaStream" where
  "addTrack ms = ms\<lparr>audioTracks := audioTracks ms @ [live], active := True\<rparr>"

text \<open>
  \<^verbatim>\<open>createStream\<close> up to its first await: the guard on the canvas and on
  \<open>streamCreatedRef\<close>. A call that passes the guard is suspended; the flag is not set
  yet, so a second call made meanwhile passes the guard too. The result says whether the
  call goes on (otherwise it has returned null).
\<close>

definition createStream :: "bool \<Rightarrow> HookState \<Rightarrow> bool \<times> HookState" where
  "createStream canvas st =
     (if \<not> canvas \<or> streamCreatedRef st then (False, st)
      else (True, st\<lparr>suspended := Suc (suspended st)\<rparr>))"

text \<open>
  The rest of a suspended call, run when its awaits have settled: the refs are written,
  then the callback is called or the timer armed. No state is written between the two
  awaits, so they are one suspension here. The guard is not tested again.
\<close>

definition createStreamResumed ::
  "bool \<Rightarrow> attempt \<Rightarrow> HookState \<Rightarrow> MediaStream option \<times> HookState" where
  "createStreamResumed onStreamReady att st =
     (if suspended st = 0 then (None, st)
      else
        (let st0 = st\<lparr>suspended := suspended st - 1\<rparr>
         in case att of
              raised \<Rightarrow> (None, st0\<lparr>streamCreatedRef := False\<rparr>)
            | captured stream0 validationResult \<Rightarrow>
                (let stream = addTrack stream0;
                     st1 = st0\<lparr>streamRef := Some stream, streamCreatedRef := True\<rparr>
                 in if onStreamReady \<and> isStable validationResult
                    then (Some stream, st1\<lparr>readyCalls := readyCalls st1 @ [stream]\<rparr>)
                    else if onStreamReady \<and> \<not> isStable validationResult
                    then (Some stream, st1\<lparr>retryTimers := retryTimers st1 @ [1000]\<rparr>)
                    else (Some stream, st1))))"

text \<open>
  The callback of the oldest armed timer runs. It reads \<open>streamRef\<close> when it runs, not
  the stream of the creation that armed it.
\<close>

definition retryFires :: "HookState \<Rightarrow> HookState" where
  "retryFires st =
     (case retryTimers st of
        [] \<Rightarrow> st
      | _ # rest \<Rightarrow>
          (let st1 = st\<lparr>retryTimers := rest\<rparr>
           in case streamRef st1 of
                None \<Rightarrow> st1
              | Some stream \<Rightarrow>
                  if active stream then st1\<lparr>readyCalls := readyCalls st1 @ [stream]\<rparr> else st1))"

definition stopStream :: "HookState \<Rightarrow> HookState" where
  "stopStream st = st\<lparr>streamRef := None, streamCreatedRef := False\<rparr>"

text \<open>The host ends every track of the stream the hook holds.\<close>

definition tracksEnded :: "HookState \<Rightarrow> HookState" where
  "tracksEnded st =
     st\<lparr>streamRef := map_option
          (\<lambda>ms. ms\<lparr>active := False, videoTracks := map (\<lambda>_. ended) (videoTracks ms),
                   audioTracks := map (\<lambda>_. ended) (audioTracks ms)\<rparr>) (streamRef st)\<rparr>"

definition newHook :: HookState where
  "newHook = \<lparr>streamRef = None, streamCreatedRef = False, readyCalls = [], retryTimers = [],
              suspended = 0\<rparr>"

section \<open>Derived notions and concrete inputs\<close>

text \<open>
  The destination rectangle \<open>(dx, dy, dw, dh)\<close> that \<^verbatim>\<open>blitSource\<close> computes for a
  \<open>sw\<close> x \<open>sh\<close> source on a \<open>w\<close> x \<open>h\<close> surface.
\<close>

definition destinationRect :: "nat \<Rightarrow> nat \<Rightarrow> nat \<Rightarrow> nat \<Rightarrow> int \<times> int \<times> int \<times> int" where
  "destinationRect w h sw sh =
     (let scale = min (fl (real w / real sw)) (fl (real h / real sh));
          dw = \<lfloor>fl (real sw * scale)\<rfloor>;
          dh = \<lfloor>fl (real sh * scale)\<rfloor>;
          dx = \<lfloor>fl (fl (real w - real_of_int dw) / 2)\<rfloor>;
          dy = \<lfloor>fl (fl (real h - real_of_int dh) / 2)\<rfloor>
      in (dx, dy, dw, dh))"

text \<open>A source the host can draw: non-zero intrinsic dimensions and no exception.\<close>

definition drawable :: "host \<Rightarrow> StreamSource \<Rightarrow> bool" where
  "drawable hst s =
     (intrinsicWidth hst s \<noteq> 0 \<and> intrinsicHeight hst s \<noteq> 0 \<and> \<not> drawImageRaises hst s)"

text \<open>
  A pump is active when the orchestrator holds its handle and the event loop still has
  the registration.
\<close>

definition foregroundActive :: "World \<Rightarrow> bool" where
  "foregroundActive w =
     (case animationId (orch w) of
        None \<Rightarrow> False
      | Some h \<Rightarrow> h \<noteq> 0 \<and> h \<in> set (frames (sched w)))"

definition backgroundActive :: "World \<Rightarrow> bool" where
  "backgroundActive w =
     (case backgroundTimer (orch w) of
        None \<Rightarrow> False
      | Some h \<Rightarrow> h \<noteq> 0 \<and> h \<in> fst ` set (intervals (sched w)))"

definition monitoring_inv :: "StreamComplexityManager \<times> Scheduler \<Rightarrow> bool" where
  "monitoring_inv ms =
     ((isAnalyzing (fst ms) \<longleftrightarrow> analysisIntervalHandle (fst ms) \<noteq> None)
      \<and> analysisIntervalHandle (fst ms) \<noteq> Some 0
      \<and> analysisTimers (snd ms) =
          (case analysisIntervalHandle (fst ms) of None \<Rightarrow> [] | Some h \<Rightarrow> [h]))"

text \<open>A visible page with a 300x100 canvas and a playing 640x480 video behind every handle.\<close>

definition visibleHost :: host where
  "visibleHost =
     \<lparr>canvases = (\<lambda>_. \<lparr>width = 300, height = 100\<rparr>),
      videos = (\<lambda>_. \<lparr>readyState = 4, videoWidth = 640, videoHeight = 480, paused = False\<rparr>),
      drawImageRaises = (\<lambda>_. False), hidden = False, hasWindow = True,
      contextAvailable = True, hasRequestFrame = True\<rparr>"

definition hiddenHost :: host where
  "hiddenHost = visibleHost\<lparr>hidden := True\<rparr>"

definition raisingHost :: host where
  "raisingHost = visibleHost\<lparr>drawImageRaises := (\<lambda>_. True)\<rparr>"


definition sourceA :: StreamSource where
  "sourceA = canvas_source 0 (Some detail)"

definition sourceB :: StreamSource where
  "sourceB = video_source 0 (Some motion)"

text \<open>
  The scenario of the specification: source A is registered and drawn, source B is
  registered 210ms later, and frames follow at 210ms (the fade starts), 310ms and 410ms.
\<close>

definition activeA :: World where
  "activeA = draw visibleHost 0 (setSource visibleHost sourceA newWorld)"

definition fadeStart :: World where
  "fadeStart = draw visibleHost 210 (setSource visibleHost sourceB activeA)"

definition fadeHalf :: World where
  "fadeHalf = draw visibleHost 310 fadeStart"

definition fadeEnd :: World where
  "fadeEnd = draw visibleHost 410 fadeHalf"

definition streamingWorld :: World where
  "streamingWorld = setSource visibleHost sourceB newWorld"

definition deadStream :: MediaStream where
  "deadStream = \<lparr>streamId = ''s'', active = False, videoTracks = [ended], audioTracks = []\<rparr>"

definition liveStream :: MediaStream where
  "liveStream = \<lparr>streamId = ''s'', active = True, videoTracks = [live], audioTracks = []\<rparr>"

definition timedOut :: StreamStabilizationResult where
  "timedOut = \<lparr>isStable = False, frameCount = 0, timeElapsed = 2000,
                error = Some ''Validation timeout''\<rparr>"

definition stable :: StreamStabilizationResult where
  "stable = \<lparr>isStable = True, frameCount = 3, timeElapsed = 120, error = None\<rparr>"

definition otherStream :: MediaStream where
  "otherStream = \<lparr>streamId = ''t'', active = True, videoTracks = [live], audioTracks = []\<rparr>"

text \<open>A creation whose validation timed out: its timer is armed and nothing is handed over yet.\<close>

definition failedCreation :: HookState where
  "failedCreation =
     snd (createStreamResumed True (captured liveStream timedOut) (snd (createStream True newHook)))"

text \<open>
  The stream is stopped and a second creation, of another stream and validated stable,
  completes before the first creation's timer fires.
\<close>

definition recreated :: HookState where
  "recreated =
     snd (createStreamResumed True (captured otherStream stable)
            (snd (createStream True (stopStream failedCreation))))"

text \<open>Two calls of \<^verbatim>\<open>createStream\<close> made before either has passed its awaits.\<close>

definition overlapping :: HookState where
  "overlapping = snd (createStream True (snd (createStream True newHook)))"

definition videoOnly :: StreamValidationOptions where
  "videoOnly = \<lparr>minStableFrames = None, timeoutMs = None, validateAudio = Some False\<rparr>"

text \<open>
  Two calls for the same stream, 10ms apart, on a stream whose hidden video elements
  emit no \<^verbatim>\<open>timeupdate\<close>; both timeouts fire and both continuations run.
\<close>

definition twoCalls :: StreamStabilizer where
  "twoCalls =
     validateStreamStability liveStream videoOnly 10
       (validateStreamStability liveStream videoOnly 0 newStabilizer)"

definition bothTimeOut :: StreamStabilizer where
  "bothTimeOut = resume 1 (timeoutFires 1 3010 (resume 0 (timeoutFires 0 3000 twoCalls)))"

text \<open>The same two calls when the first video element does emit a \<^verbatim>\<open>timeupdate\<close>.\<close>

definition firstSeesAbort :: StreamStabilizer where
  "firstSeesAbort = resume 0 (timeupdate 0 0.1 40 twoCalls)"

text \<open>
  A 128x128 canvas filled with one opaque grey level, the configured options that the
  orchestrator passes, and the manager after it has sampled the black canvas once.
\<close>

definition uniformCanvas :: "nat \<Rightarrow> PixelCanvas" where
  "uniformCanvas g = \<lparr>width = 128, height = 128, context2d = Some (\<lambda>x y. (g, g, g, 255))\<rparr>"

definition configuredOptions :: ComplexityInjectionOptions where
  "configuredOptions =
     \<lparr>targetComplexity = Some 0.3, complexityType = Some ''adaptive'', enableAnalysis = None,
      minComplexityThreshold = Some 0.15, maxIntensity = Some 0.2, analysisInterval = None\<rparr>"

definition sampledBlack :: StreamComplexityManager where
  "sampledBlack =
     (case analyzeFrameComplexity newManager (uniformCanvas 0) of
        Inl _ \<Rightarrow> newManager
      | Inr (_, m) \<Rightarrow> m)"

definition uniformImage :: "nat \<Rightarrow> ImageData" where
  "uniformImage g = \<lparr>iwidth = 128, iheight = 128, idata = concat (replicate 16384 [g, g, g, 255])\<rparr>"

section \<open>Rounding to doubles\<close>


lemma round_even_int: "round_even (of_int k) = k"
  by (simp add: round_even_def)

lemma round_even_Ints: "x \<in> \<int> \<Longrightarrow> of_int (round_even x) = x"
  by (auto simp add: Ints_def round_even_int)

lemma floor_log2:
  assumes "0 < x"
  shows "\<lfloor>log 2 x\<rfloor> = e \<longleftrightarrow> 2 powi e \<le> x \<and> x < 2 powi (e + 1)"
proof -
  have "2 powr (real_of_int e) = (2::real) powi e" "2 powr (real_of_int e + 1) = (2::real) powi (e + 1)"
    using powr_real_of_int'[of "2::real" e] powr_real_of_int'[of "2::real" "e + 1"] by simp_all
  then show ?thesis
    using floor_log_eq_powr_iff[of x 2 e] assms by simp
qed

lemma fl_at:
  assumes "2 powi e \<le> \<bar>x\<bar>" and "\<bar>x\<bar> < 2 powi (e + 1)"
  shows "fl x = of_int (round_even (x / 2 powi (e - 52))) * 2 powi (e - 52)"
proof -
  have "0 < (2::real) powi e" by simp
  then have pos: "0 < \<bar>x\<bar>" using assms(1) by linarith
  then have "\<lfloor>log 2 \<bar>x\<bar>\<rfloor> = e" using floor_log2[OF pos] assms by simp
  then show ?thesis using pos by (simp add: fl_def Let_def)
qed

lemma fl_zero [simp]: "fl 0 = 0"
  by (simp add: fl_def)




lemma fl_exact:
  assumes "m \<noteq> 0" and "\<bar>m\<bar> < 2 ^ 53"
  shows "fl (of_int m * 2 powi j) = of_int m * 2 powi j"
proof -
  define x :: real where "x = of_int m * 2 powi j"
  define e where "e = \<lfloor>log 2 \<bar>x\<bar>\<rfloor>"
  have ax: "\<bar>x\<bar> = of_int \<bar>m\<bar> * 2 powi j" by (simp add: x_def abs_mult)
  have pos: "0 < \<bar>x\<bar>" using assms(1) by (simp add: x_def)
  have "2 powi e \<le> \<bar>x\<bar>" using floor_log2[OF pos, of e] e_def by simp
  also have "\<bar>x\<bar> < 2 ^ 53 * 2 powi j"
    unfolding ax using assms(2) by (intro mult_strict_right_mono) (simp_all add: of_int_less_iff[where 'a=real, symmetric] del: of_int_less_iff)
  also have "\<dots> = 2 powi (j + 53)" by (simp add: power_int_add)
  finally have lt: "(2::real) powi e < 2 powi (j + 53)" .
  have "e < j + 53"
  proof (rule ccontr)
    assume "\<not> e < j + 53"
    then have "(2::real) powi (j + 53) \<le> 2 powi e"
      by (intro power_int_increasing) simp_all
    with lt show False by simp
  qed
  then have k: "0 \<le> j - (e - 52)" by simp
  have "x / 2 powi (e - 52) = of_int m * 2 powi (j - (e - 52))"
    by (simp add: x_def power_int_diff)
  also have "\<dots> = of_int (m * 2 ^ nat (j - (e - 52)))"
    using k by (simp add: power_int_nonneg_exp)
  finally have "x / 2 powi (e - 52) \<in> \<int>" by simp
  then have "of_int (round_even (x / 2 powi (e - 52))) = x / 2 powi (e - 52)"
    by (rule round_even_Ints)
  then have "fl x = x"
    using pos by (simp add: fl_def Let_def e_def[symmetric])
  then show ?thesis by (simp add: x_def)
qed

lemma fl_int: "\<bar>k\<bar> < 2 ^ 53 \<Longrightarrow> fl (of_int k) = of_int k"
  using fl_exact[of k 0] by (cases "k = 0") simp_all

lemma fl_nat: "n < 2 ^ 53 \<Longrightarrow> fl (real n) = real n"
  using fl_int[of "int n"] by simp

lemma fl_half: "\<bar>k\<bar> < 2 ^ 53 \<Longrightarrow> fl (of_int k / 2) = of_int k / 2"
  using fl_exact[of k "-1"] by (cases "k = 0") (simp_all add: power_int_minus field_simps)

section \<open>Blitting a source (C7, C10)\<close>

lemma blitSource_rect:
  "blitSource hst st source alpha =
     (case outputCtx st of
        None \<Rightarrow> st
      | Some ctx \<Rightarrow>
          (case outputCanvas st of
             None \<Rightarrow> st
           | Some cv \<Rightarrow>
               if intrinsicWidth hst source = 0 \<or> intrinsicHeight hst source = 0 then st
               else
                 (case destinationRect (width cv) (height cv)
                         (intrinsicWidth hst source) (intrinsicHeight hst source) of
                    (dx, dy, dw, dh) \<Rightarrow>
                      st\<lparr>outputCtx := Some
                           ((case drawImage hst (ctx\<lparr>globalAlpha := max 0 (min 1 alpha)\<rparr>)
                                   source dx dy dw dh of
                               Inl _ \<Rightarrow> ctx\<lparr>globalAlpha := max 0 (min 1 alpha)\<rparr>
                             | Inr c \<Rightarrow> c)\<lparr>globalAlpha := globalAlpha ctx\<rparr>)\<rparr>)))"
  by (simp add: blitSource_def destinationRect_def Let_def split: option.splits)


lemma centre_bounds:
  fixes w :: nat and d :: int
  assumes "0 \<le> d" and "d \<le> int w" and "w < 2 ^ 32"
  defines "x \<equiv> \<lfloor>fl (fl (real w - real_of_int d) / 2)\<rfloor>"
  shows "x = \<lfloor>(real w - real_of_int d) / 2\<rfloor>"
    and "0 \<le> x" and "x + d \<le> int w" and "(int w - (x + d)) - x \<in> {0, 1}"
proof -
  have small: "\<bar>int w - d\<bar> < 2 ^ 53"
  proof -
    have "int w < 2 ^ 32" using assms(3) by simp
    then have "\<bar>int w - d\<bar> < 2 ^ 32" using assms(1,2) by simp
    also have "(2 ^ 32 :: int) < 2 ^ 53" by simp
    finally show ?thesis .
  qed
  have r: "real w - real_of_int d = real_of_int (int w - d)" by simp
  have exact: "fl (fl (real w - real_of_int d) / 2) = real_of_int (int w - d) / 2"
    unfolding r fl_int[OF small] fl_half[OF small] ..
  have x: "x = (int w - d) div 2"
  proof -
    have "real_of_int (int w - d) / 2 = real_of_int (int w - d) / real_of_int 2" by simp
    then show ?thesis unfolding x_def exact by (simp only: floor_divide_of_int_eq)
  qed
  show "x = \<lfloor>(real w - real_of_int d) / 2\<rfloor>"
    unfolding x_def exact by (simp only: r)
  show "0 \<le> x" and "x + d \<le> int w" and "(int w - (x + d)) - x \<in> {0, 1}"
    using assms(1,2) unfolding x by auto
qed


text \<open>Evaluating the rectangle: the steps of \<open>destinationRect\<close> with their values.\<close>

lemma destinationRect_steps:
  assumes "fl (real w / real sw) = a" and "fl (real h / real sh) = b"
    and "\<lfloor>fl (real sw * min a b)\<rfloor> = dw" and "\<lfloor>fl (real sh * min a b)\<rfloor> = dh"
    and "0 \<le> dw" and "dw \<le> int w" and "0 \<le> dh" and "dh \<le> int h"
    and "w < 2 ^ 32" and "h < 2 ^ 32"
  shows "destinationRect w h sw sh
           = (\<lfloor>(real w - real_of_int dw) / 2\<rfloor>, \<lfloor>(real h - real_of_int dh) / 2\<rfloor>, dw, dh)"
  unfolding destinationRect_def Let_def assms(1,2,3,4)
  using centre_bounds(1)[OF assms(5,6,9)] centre_bounds(1)[OF assms(7,8,10)] by simp

text \<open>The 640x480 video on the 512x512 surface: scale 0.8, rectangle 512x384 at (0, 64).\<close>

lemma rect_640_480: "destinationRect 512 512 640 480 = (0, 64, 512, 384)"
proof -
  have a: "fl (real 512 / real 640) = 7205759403792794 / 2 ^ 53"
    by simp (subst fl_at[of "-1"], simp_all add: round_even_def Let_def)
  have b: "fl (real 512 / real 480) = 4803839602528529 / 2 ^ 52"
    by simp (subst fl_at[of 0], simp_all add: round_even_def Let_def)
  have m: "min (7205759403792794 / 2 ^ 53) (4803839602528529 / 2 ^ 52)
             = (7205759403792794 / 2 ^ 53 :: real)" by simp
  have c: "\<lfloor>fl (real 640 * min (7205759403792794 / 2 ^ 53) (4803839602528529 / 2 ^ 52))\<rfloor> = 512"
    unfolding m by simp (subst fl_at[of 9], simp_all add: round_even_def Let_def)
  have d: "\<lfloor>fl (real 480 * min (7205759403792794 / 2 ^ 53) (4803839602528529 / 2 ^ 52))\<rfloor> = 384"
    unfolding m by simp (subst fl_at[of 8], simp_all add: round_even_def Let_def)
  show ?thesis
    using destinationRect_steps[OF a b c d] by simp
qed

text \<open>The 300x100 canvas on the 512x512 surface: rectangle 512x170 at (0, 171).\<close>

lemma rect_300_100: "destinationRect 512 512 300 100 = (0, 171, 512, 170)"
proof -
  have a: "fl (real 512 / real 300) = 7686143364045647 / 2 ^ 52"
    by simp (subst fl_at[of 0], simp_all add: round_even_def Let_def)
  have b: "fl (real 512 / real 100) = 5764607523034235 / 2 ^ 50"
    by simp (subst fl_at[of 2], simp_all add: round_even_def Let_def)
  have m: "min (7686143364045647 / 2 ^ 52) (5764607523034235 / 2 ^ 50)
             = (7686143364045647 / 2 ^ 52 :: real)" by simp
  have c: "\<lfloor>fl (real 300 * min (7686143364045647 / 2 ^ 52) (5764607523034235 / 2 ^ 50))\<rfloor> = 512"
    unfolding m by simp (subst fl_at[of 9], simp_all add: round_even_def Let_def)
  have d: "\<lfloor>fl (real 100 * min (7686143364045647 / 2 ^ 52) (5764607523034235 / 2 ^ 50))\<rfloor> = 170"
    unfolding m by simp (subst fl_at[of 7], simp_all add: round_even_def Let_def)
  show ?thesis
    using destinationRect_steps[OF a b c d] by simp
qed




text \<open>
  Claim C10. Whatever the alpha argument, and also when the host's draw raises, the
  context's global alpha after \<^verbatim>\<open>blitSource\<close> is its value before the call. A draw that
  raises leaves the whole compositor state as it was. A draw that succeeds adds exactly
  one image, drawn at the argument clamped to [0, 1].
\<close>

theorem blitSource_restores_alpha:
  "map_option globalAlpha (outputCtx (blitSource hst st src alpha))
     = map_option globalAlpha (outputCtx st)
   \<and> (drawImageRaises hst src \<longrightarrow> blitSource hst st src alpha = st)
   \<and> (\<forall>ctx'. outputCtx (blitSource hst st src alpha) = Some ctx' \<longrightarrow>
        (\<exists>ctx. outputCtx st = Some ctx \<and>
          (drawn ctx' = drawn ctx \<or>
           (\<exists>dx dy dw dh.
              drawn ctx' = drawn ctx @ [DrawImage src (max 0 (min 1 alpha)) dx dy dw dh]))))"
  by (auto simp add: blitSource_def drawImage_def Let_def split: option.splits)

theorem blitSource_restores_alpha_witness:
  "drawImageRaises raisingHost sourceB
   \<and> outputCtx (orch activeA) \<noteq> None
   \<and> blitSource raisingHost (orch activeA) sourceB 7 = orch activeA
   \<and> map_option globalAlpha (outputCtx (blitSource visibleHost (orch activeA) sourceB 7)) = Some 1"
proof -
  have r: "drawImageRaises raisingHost sourceB" by (simp add: raisingHost_def)
  have c: "outputCtx (orch activeA) \<noteq> None \<and> map_option globalAlpha (outputCtx (orch activeA)) = Some 1"
    by (simp add: activeA_def draw_def drawSources_def blitSource_rect rect_300_100 drawImage_def
        fillRect_def requestFrame_def hasTrack_def requestAnimationFrame_def
        setSource_def ensureInitialized_def setBackgroundOptions_def updateBackgroundStreaming_def
        stopBackgroundStreaming_def stopMonitoring_def enabledComplexity_def truthy_def start_def
        setTimeout_def Let_def newWorld_def newOrchestrator_def newManager_def newScheduler_def
        visibleHost_def sourceA_def defaultBackgroundOptions_def
        STREAMING_CONFIG_WIDTH_def STREAMING_CONFIG_HEIGHT_def STREAMING_CONFIG_FPS_def)
  from blitSource_restores_alpha[of raisingHost "orch activeA" sourceB 7]
    blitSource_restores_alpha[of visibleHost "orch activeA" sourceB 7] r c
  show ?thesis by simp
qed

section \<open>The crossfade (C1)\<close>

lemmas orchestrator_eval =
  draw_def drawSources_def blitSource_rect rect_640_480 rect_300_100 drawImage_def fillRect_def requestFrame_def hasTrack_def
  setSource_def ensureInitialized_def setBackgroundOptions_def updateBackgroundStreaming_def
  stopBackgroundStreaming_def startBackgroundStreaming_def start_def visibilitychange_def
  visibilityHandlerBody_def kickChain_def enabledComplexity_def stopMonitoring_def
  startMonitoring_def truthy_def setInterval_def setTimeout_def requestAnimationFrame_def
  clearInterval_def cancelAnimationFrame_def crossfadeDurationMs_def Let_def
  newWorld_def newOrchestrator_def newManager_def newScheduler_def defaultBackgroundOptions_def
  STREAMING_CONFIG_FPS_def STREAMING_CONFIG_WIDTH_def STREAMING_CONFIG_HEIGHT_def
  visibleHost_def hiddenHost_def sourceA_def sourceB_def

lemma blitSource_fields:
  "currentSource (blitSource hst st s a) = currentSource st"
  "pendingSource (blitSource hst st s a) = pendingSource st"
  "crossfadeStartMs (blitSource hst st s a) = crossfadeStartMs st"
  "outputCanvas (blitSource hst st s a) = outputCanvas st"
  by (simp_all add: blitSource_def Let_def split: option.splits)

lemma blitSource_drawable:
  assumes "outputCtx st = Some ctx" and "outputCanvas st = Some cv" and "drawable hst s"
  shows "\<exists>dx dy dw dh. outputCtx (blitSource hst st s a)
           = Some (ctx\<lparr>drawn := drawn ctx @ [DrawImage s (max 0 (min 1 a)) dx dy dw dh]\<rparr>)"
  using assms
  apply (simp add: blitSource_def drawImage_def drawable_def Let_def)
  apply (intro exI)
  apply (rule refl)
  done

lemma drawSources_crossfade:
  assumes "pendingSource st = Some p" and "isSourceReady hst p" and "currentSource st = Some c"
    and "began = (case crossfadeStartMs st of None \<Rightarrow> now | Some s \<Rightarrow> s)"
    and "t = min 1 ((now - began) / 200)"
  shows "drawSources hst now st =
           (let st2 = blitSource hst (blitSource hst (st\<lparr>crossfadeStartMs := Some began\<rparr>) c (1 - t)) p t
            in if t \<ge> 1
               then st2\<lparr>currentSource := Some p, pendingSource := None, crossfadeStartMs := None\<rparr>
               else st2)"
proof (cases "crossfadeStartMs st")
  case None
  then show ?thesis
    using assms by (simp add: drawSources_def Let_def crossfadeDurationMs_def blitSource_fields)
next
  case (Some a)
  then have same: "st\<lparr>crossfadeStartMs := Some a\<rparr> = st" by (cases st) simp
  show ?thesis
    using assms Some by (simp add: drawSources_def Let_def crossfadeDurationMs_def same)
qed

text \<open>
  Claim C1. In a tick with a ready pending source \<open>p\<close> and a current source \<open>c\<close>, let
  \<open>began\<close> be the recorded crossfade start (this tick's clock reading if none is recorded
  yet) and \<open>t = min 1 ((now - began) / 200)\<close>. After the tick: if \<open>t \<ge> 1\<close> the pending
  source is the current one and the pending source and the start time are cleared;
  otherwise both sources stay and the start time is \<open>began\<close>. When the host can draw both
  sources and the clock has not run backwards, the tick draws, on the cleared surface,
  \<open>c\<close> at alpha \<open>1 - t\<close> and then \<open>p\<close> at alpha \<open>t\<close>, followed by the marker pixel.
\<close>

theorem crossfade_tick:
  assumes "outputCanvas (orch w) = Some cv" and "outputCtx (orch w) = Some ctx"
    and "pendingSource (orch w) = Some p" and "isSourceReady hst p"
    and "currentSource (orch w) = Some c"
    and "began = (case crossfadeStartMs (orch w) of None \<Rightarrow> now | Some s \<Rightarrow> s)"
    and "t = min 1 ((now - began) / 200)"
  shows "currentSource (orch (draw hst now w)) = (if t \<ge> 1 then Some p else Some c)
       \<and> pendingSource (orch (draw hst now w)) = (if t \<ge> 1 then None else Some p)
       \<and> crossfadeStartMs (orch (draw hst now w)) = (if t \<ge> 1 then None else Some began)
       \<and> (drawable hst c \<and> drawable hst p \<and> began \<le> now \<longrightarrow>
            (\<exists>cx cy cw ch px py pw ph ctx'.
               outputCtx (orch (draw hst now w)) = Some ctx'
             \<and> drawn ctx' = drawn ctx @
                 [FillRect ''#000000'' 0 0 (int (width cv)) (int (height cv)),
                  DrawImage c (1 - t) cx cy cw ch,
                  DrawImage p t px py pw ph,
                  FillRect ''rgba(255, 0, 0, 0.01)'' (int (width cv) - 1) (int (height cv) - 1) 1 1]))"
proof -
  define ctx1 where "ctx1 = fillRect (ctx\<lparr>globalCompositeOperation := ''source-over'',
                                         fillStyle := ''#000000''\<rparr>) 0 0 (int (width cv)) (int (height cv))"
  define st0 where "st0 = (orch w)\<lparr>outputCtx := Some ctx1\<rparr>"
  define st1 where "st1 = drawSources hst now st0"
  have d: "orch (draw hst now w) =
      st1\<lparr>outputCtx := map_option (\<lambda>c. fillRect (c\<lparr>fillStyle := ''rgba(255, 0, 0, 0.01)''\<rparr>)
                                               (int (width cv) - 1) (int (height cv) - 1) 1 1) (outputCtx st1),
          animationId := Some (fst (requestAnimationFrame (sched w)))\<rparr>"
    using assms(1,2)
    by (simp add: draw_def Let_def requestFrame_def st1_def st0_def ctx1_def)
  have s0: "pendingSource st0 = Some p" "currentSource st0 = Some c"
    "began = (case crossfadeStartMs st0 of None \<Rightarrow> now | Some s \<Rightarrow> s)"
    "outputCtx st0 = Some ctx1" "outputCanvas st0 = Some cv"
    using assms by (simp_all add: st0_def)
  define sa where "sa = blitSource hst (st0\<lparr>crossfadeStartMs := Some began\<rparr>) c (1 - t)"
  define sb where "sb = blitSource hst sa p t"
  have s1: "st1 = (if t \<ge> 1
               then sb\<lparr>currentSource := Some p, pendingSource := None, crossfadeStartMs := None\<rparr>
               else sb)"
    unfolding st1_def sb_def sa_def
    using drawSources_crossfade[OF s0(1) assms(4) s0(2) s0(3) assms(7)] by (simp add: Let_def)
  have sbf: "currentSource sb = Some c" "pendingSource sb = Some p" "crossfadeStartMs sb = Some began"
    by (simp_all add: sb_def sa_def blitSource_fields s0)
  have state: "currentSource (orch (draw hst now w)) = (if t \<ge> 1 then Some p else Some c)"
    "pendingSource (orch (draw hst now w)) = (if t \<ge> 1 then None else Some p)"
    "crossfadeStartMs (orch (draw hst now w)) = (if t \<ge> 1 then None else Some began)"
    by (simp_all add: d s1 sbf)
  have log: "\<exists>cx cy cw ch px py pw ph ctx'.
               outputCtx (orch (draw hst now w)) = Some ctx'
             \<and> drawn ctx' = drawn ctx @
                 [FillRect ''#000000'' 0 0 (int (width cv)) (int (height cv)),
                  DrawImage c (1 - t) cx cy cw ch,
                  DrawImage p t px py pw ph,
                  FillRect ''rgba(255, 0, 0, 0.01)'' (int (width cv) - 1) (int (height cv) - 1) 1 1]"
    if dr: "drawable hst c" "drawable hst p" and mono: "began \<le> now"
  proof -
    have t01: "0 \<le> t" "t \<le> 1" using mono assms(7) by simp_all
    then have cl: "max 0 (min 1 (1 - t)) = 1 - t" "max 0 (min 1 t) = t" by simp_all
    obtain cx cy cw ch where a: "outputCtx sa
        = Some (ctx1\<lparr>drawn := drawn ctx1 @ [DrawImage c (1 - t) cx cy cw ch]\<rparr>)"
      using blitSource_drawable[of "st0\<lparr>crossfadeStartMs := Some began\<rparr>" ctx1 cv hst c "1 - t"]
        s0 dr(1) unfolding sa_def cl by auto
    have ca: "outputCanvas sa = Some cv" by (simp add: sa_def blitSource_fields s0)
    obtain px py pw ph where b: "outputCtx sb
        = Some (ctx1\<lparr>drawn := drawn ctx1 @ [DrawImage c (1 - t) cx cy cw ch]
                                            @ [DrawImage p t px py pw ph]\<rparr>)"
      using blitSource_drawable[OF a ca dr(2), of t] unfolding sb_def cl by auto
    have "outputCtx st1 = outputCtx sb" by (simp add: s1)
    then show ?thesis
      by (simp add: d b ctx1_def fillRect_def)
  qed
  show ?thesis using state log by blast
qed

text \<open>
  The state in which the scenario's fade starts: A is current, B is pending and ready,
  the start time 210 is recorded, and the surface holds the frames drawn so far.
\<close>

lemma fadeStart_state:
  "outputCanvas (orch fadeStart) = Some \<lparr>width = 512, height = 512\<rparr>"
  "currentSource (orch fadeStart) = Some sourceA"
  "pendingSource (orch fadeStart) = Some sourceB"
  "crossfadeStartMs (orch fadeStart) = Some 210"
  "outputCtx (orch fadeStart) =
     Some \<lparr>globalAlpha = 1, globalCompositeOperation = ''source-over'',
           fillStyle = ''rgba(255, 0, 0, 0.01)'',
           drawn = [FillRect ''#000000'' 0 0 512 512,
                    DrawImage sourceA 1 0 171 512 170,
                    FillRect ''rgba(255, 0, 0, 0.01)'' 511 511 1 1,
                    FillRect ''#000000'' 0 0 512 512,
                    DrawImage sourceA 1 0 171 512 170,
                    DrawImage sourceB 0 0 64 512 384,
                    FillRect ''rgba(255, 0, 0, 0.01)'' 511 511 1 1]\<rparr>"
  by (simp_all add: fadeStart_def activeA_def orchestrator_eval)

theorem crossfade_tick_witness:
  "pendingSource (orch fadeStart) = Some sourceB \<and> isSourceReady visibleHost sourceB
   \<and> currentSource (orch fadeStart) = Some sourceA
   \<and> crossfadeStartMs (orch fadeStart) = Some 210
   \<and> drawable visibleHost sourceA \<and> drawable visibleHost sourceB
   \<and> currentSource (orch (draw visibleHost 310 fadeStart)) = Some sourceA
   \<and> pendingSource (orch (draw visibleHost 310 fadeStart)) = Some sourceB
   \<and> (\<exists>cx cy cw ch px py pw ph ctx'.
         outputCtx (orch (draw visibleHost 310 fadeStart)) = Some ctx'
       \<and> drop 7 (drawn ctx') =
           [FillRect ''#000000'' 0 0 512 512,
            DrawImage sourceA (1 / 2) cx cy cw ch,
            DrawImage sourceB (1 / 2) px py pw ph,
            FillRect ''rgba(255, 0, 0, 0.01)'' 511 511 1 1])
   \<and> currentSource (orch (draw visibleHost 410 fadeStart)) = Some sourceB
   \<and> pendingSource (orch (draw visibleHost 410 fadeStart)) = None
   \<and> crossfadeStartMs (orch (draw visibleHost 410 fadeStart)) = None"
proof -
  have ready: "isSourceReady visibleHost sourceB"
    by (simp add: visibleHost_def sourceB_def)
  have dr: "drawable visibleHost sourceA" "drawable visibleHost sourceB"
    by (simp_all add: drawable_def visibleHost_def sourceA_def sourceB_def)
  have began: "(210::real) = (case crossfadeStartMs (orch fadeStart) of None \<Rightarrow> 310 | Some s \<Rightarrow> s)"
    "(210::real) = (case crossfadeStartMs (orch fadeStart) of None \<Rightarrow> 410 | Some s \<Rightarrow> s)"
    by (simp_all add: fadeStart_state)
  have half: "(1 / 2 :: real) = min 1 ((310 - 210) / 200)" by simp
  have full: "(1 :: real) = min 1 ((410 - 210) / 200)" by simp
  note at_half = crossfade_tick[OF fadeStart_state(1) fadeStart_state(5) fadeStart_state(3) ready
      fadeStart_state(2) began(1) half]
  note at_full = crossfade_tick[OF fadeStart_state(1) fadeStart_state(5) fadeStart_state(3) ready
      fadeStart_state(2) began(2) full]
  from at_half dr have
    "\<exists>cx cy cw ch px py pw ph ctx'.
         outputCtx (orch (draw visibleHost 310 fadeStart)) = Some ctx'
       \<and> drop 7 (drawn ctx') =
           [FillRect ''#000000'' 0 0 512 512,
            DrawImage sourceA (1 / 2) cx cy cw ch,
            DrawImage sourceB (1 / 2) px py pw ph,
            FillRect ''rgba(255, 0, 0, 0.01)'' 511 511 1 1]"
    by fastforce
  with at_half at_full ready dr fadeStart_state(2,3,4) show ?thesis by simp
qed

text \<open>
  The scenario of the specification, frame by frame: when the fade starts B is drawn at
  alpha 0 over A at alpha 1; 100ms later both are drawn at alpha 1/2; 200ms after the
  start B is drawn at alpha 1 over A at alpha 0, B is the current source and nothing is
  pending.
\<close>

lemma crossfade_scenario:
  "map_option (drop 3 \<circ> drawn) (outputCtx (orch fadeStart)) =
     Some [FillRect ''#000000'' 0 0 512 512,
           DrawImage sourceA 1 0 171 512 170,
           DrawImage sourceB 0 0 64 512 384,
           FillRect ''rgba(255, 0, 0, 0.01)'' 511 511 1 1]"
  "map_option (drop 7 \<circ> drawn) (outputCtx (orch fadeHalf)) =
     Some [FillRect ''#000000'' 0 0 512 512,
           DrawImage sourceA (1 / 2) 0 171 512 170,
           DrawImage sourceB (1 / 2) 0 64 512 384,
           FillRect ''rgba(255, 0, 0, 0.01)'' 511 511 1 1]"
  "map_option (drop 11 \<circ> drawn) (outputCtx (orch fadeEnd)) =
     Some [FillRect ''#000000'' 0 0 512 512,
           DrawImage sourceA 0 0 171 512 170,
           DrawImage sourceB 1 0 64 512 384,
           FillRect ''rgba(255, 0, 0, 0.01)'' 511 511 1 1]"
  "currentSource (orch fadeEnd) = Some sourceB"
  "pendingSource (orch fadeEnd) = None"
  "crossfadeStartMs (orch fadeEnd) = None"
  by (simp_all add: fadeEnd_def fadeHalf_def fadeStart_def activeA_def orchestrator_eval)

section \<open>Foreground and background pumps (C2)\<close>

text \<open>
  Claim C2 as stated fails. After a source is set on a visible page the animation loop
  is running; when the page then becomes hidden the handler starts the background
  timer and leaves the animation-frame request in place, so both pumps are active.
\<close>

theorem both_pumps_active_counterexample:
  "foregroundActive (visibilitychange hiddenHost streamingWorld)
   \<and> backgroundActive (visibilitychange hiddenHost streamingWorld)"
  by (simp add: foregroundActive_def backgroundActive_def streamingWorld_def orchestrator_eval)

lemma startBackgroundStreaming_foreground:
  "animationId (orch (startBackgroundStreaming w)) = animationId (orch w)
   \<and> frames (sched (startBackgroundStreaming w)) = frames (sched w)"
  by (simp add: startBackgroundStreaming_def startMonitoring_def setInterval_def Let_def
      split: option.splits)

lemma startBackgroundStreaming_idle:
  "outputCanvas (orch w) = None \<or> truthy (backgroundTimer (orch w))
    \<Longrightarrow> startBackgroundStreaming w = w"
  by (auto simp add: startBackgroundStreaming_def split: option.splits)

lemma startMonitoring_intervals:
  "\<exists>more. intervals (snd (startMonitoring c opts ms)) = intervals (snd ms) @ more"
  by (simp add: startMonitoring_def setInterval_def Let_def)

lemma startBackgroundStreaming_registers:
  assumes "backgroundOptions (orch w) = Some opts" and "outputCanvas (orch w) \<noteq> None"
    and "\<not> truthy (backgroundTimer (orch w))"
  shows "\<exists>h pre. backgroundTimer (orch (startBackgroundStreaming w)) = Some h \<and> h \<noteq> 0
           \<and> intervals (sched (startBackgroundStreaming w))
               = pre @ [(h, background_tick,
                         backgroundPeriod (case fps opts of None \<Rightarrow> STREAMING_CONFIG_FPS | Some f \<Rightarrow> f))]
           \<and> set (intervals (sched w)) \<subseteq> set pre"
proof (cases "enableComplexityManagement opts = Some True")
  case True
  define c where "c = (case currentSource (orch w) of
                         Some (canvas_source r _) \<Rightarrow> source_canvas r | _ \<Rightarrow> output_canvas)"
  define co where "co = (case complexityOptions opts of None \<Rightarrow> noOptions | Some c \<Rightarrow> c)"
  obtain more where m: "intervals (snd (startMonitoring c co (manager w, sched w)))
      = intervals (sched w) @ more"
    using startMonitoring_intervals[of c co "(manager w, sched w)"] by auto
  show ?thesis
    using assms True m
    by (auto simp add: startBackgroundStreaming_def setInterval_def Let_def c_def[symmetric]
        co_def[symmetric])
next
  case False
  then show ?thesis
    using assms
    by (auto simp add: startBackgroundStreaming_def setInterval_def Let_def)
qed

lemma stopMonitoring_intervals:
  "set (intervals (snd (stopMonitoring ms))) \<subseteq> set (intervals (snd ms))"
  by (auto simp add: stopMonitoring_def Let_def clearInterval_def)

lemma stopBackgroundStreaming_timer:
  "\<not> truthy (backgroundTimer (orch (stopBackgroundStreaming w)))
   \<and> (truthy (backgroundTimer (orch w)) \<longrightarrow> backgroundTimer (orch (stopBackgroundStreaming w)) = None)"
  by (auto simp add: stopBackgroundStreaming_def Let_def truthy_def split: option.splits)

lemma stopBackgroundStreaming_subset:
  "set (intervals (sched (stopBackgroundStreaming w))) \<subseteq> set (intervals (sched w))"
proof (cases "truthy (backgroundTimer (orch w))")
  case True
  then show ?thesis
    using stopMonitoring_intervals[of "(manager w, clearInterval (the (backgroundTimer (orch w))) (sched w))"]
    by (auto simp add: stopBackgroundStreaming_def Let_def clearInterval_def)
next
  case False
  then show ?thesis
    using stopMonitoring_intervals[of "(manager w, sched w)"]
    by (auto simp add: stopBackgroundStreaming_def Let_def)
qed

lemma stopBackgroundStreaming_cleared:
  assumes "backgroundTimer (orch w) = Some h" and "h \<noteq> 0"
  shows "h \<notin> fst ` set (intervals (sched (stopBackgroundStreaming w)))"
proof -
  have "h \<notin> fst ` set (intervals (clearInterval h (sched w)))"
    by (auto simp add: clearInterval_def)
  moreover have "set (intervals (sched (stopBackgroundStreaming w)))
      \<subseteq> set (intervals (clearInterval h (sched w)))"
    using assms stopMonitoring_intervals[of "(manager w, clearInterval h (sched w))"]
    by (auto simp add: stopBackgroundStreaming_def Let_def truthy_def)
  ultimately show ?thesis by blast
qed

lemma stopBackgroundStreaming_frame:
  "animationId (orch (stopBackgroundStreaming w)) = animationId (orch w)
   \<and> outputCanvas (orch (stopBackgroundStreaming w)) = outputCanvas (orch w)
   \<and> outputCtx (orch (stopBackgroundStreaming w)) = outputCtx (orch w)
   \<and> frames (sched (stopBackgroundStreaming w)) = frames (sched w)"
  by (simp add: stopBackgroundStreaming_def stopMonitoring_def clearInterval_def Let_def)

lemma start_effect:
  "backgroundTimer (orch (start w)) = backgroundTimer (orch w)
   \<and> intervals (sched (start w)) = intervals (sched w)
   \<and> (truthy (animationId (orch w)) \<or> outputCanvas (orch w) = None \<or> outputCtx (orch w) = None
        \<longrightarrow> start w = w)
   \<and> (\<not> truthy (animationId (orch w)) \<and> outputCanvas (orch w) \<noteq> None \<and> outputCtx (orch w) \<noteq> None
        \<longrightarrow> (\<exists>h. animationId (orch (start w)) = Some h \<and> h \<noteq> 0
                 \<and> frames (sched (start w)) = frames (sched w) @ [h]))"
  by (auto simp add: start_def requestAnimationFrame_def setTimeout_def Let_def)

lemma kicks_keep_pumps:
  "orch (if c then kickChain 0 w else w) = orch w
   \<and> intervals (sched (if c then kickChain 0 w else w)) = intervals (sched w)
   \<and> frames (sched (if c then kickChain 0 w else w)) = frames (sched w)"
  by (simp add: kickChain_def setTimeout_def Let_def)

lemma play_keeps_pumps:
  "orch (case cs of Some (video_source r x) \<Rightarrow>
                      if p r then w\<lparr>playCalls := playCalls w @ [r]\<rparr> else w
                  | _ \<Rightarrow> w) = orch w
   \<and> sched (case cs of Some (video_source r x) \<Rightarrow>
                         if p r then w\<lparr>playCalls := playCalls w @ [r]\<rparr> else w
                     | _ \<Rightarrow> w) = sched w"
  by (simp split: option.splits StreamSource.splits)

text \<open>
  Claim C2, amended. With the visibility handler installed and options \<open>opts\<close> set:

  When the page becomes hidden, the foreground pump is left as it is: its handle and the
  pending animation-frame requests are unchanged. If there is an output canvas and no
  background timer is running, one interval timer running the background tick is
  registered on the event loop, as the last registration, with the period
  \<open>max 10 \<lfloor>1000 / fps\<rfloor>\<close> (\<open>fps\<close> from the options, else 30), and its non-zero handle is
  stored; nothing registered before is removed. Otherwise nothing changes at all.

  When the page becomes visible, the background timer's handle is cleared and its
  registration removed, and no interval timer is added. If the foreground pump has a
  handle, the handle and the pending requests are unchanged; if it has none and canvas
  and context exist, exactly one animation-frame request is added and its non-zero handle
  stored; if it has none and the canvas or the context is missing, nothing is requested.
\<close>

theorem visibility_pumps:
  assumes "visibilityHandler (orch w)" and "backgroundOptions (orch w) = Some opts"
  shows "(hidden hst \<longrightarrow>
            animationId (orch (visibilitychange hst w)) = animationId (orch w)
          \<and> frames (sched (visibilitychange hst w)) = frames (sched w)
          \<and> (outputCanvas (orch w) = None \<or> truthy (backgroundTimer (orch w)) \<longrightarrow>
               visibilitychange hst w = w)
          \<and> (outputCanvas (orch w) \<noteq> None \<and> \<not> truthy (backgroundTimer (orch w)) \<longrightarrow>
               (\<exists>h pre. backgroundTimer (orch (visibilitychange hst w)) = Some h \<and> h \<noteq> 0
                  \<and> intervals (sched (visibilitychange hst w))
                      = pre @ [(h, background_tick,
                                backgroundPeriod (case fps opts of None \<Rightarrow> 30 | Some f \<Rightarrow> f))]
                  \<and> set (intervals (sched w)) \<subseteq> set pre)))
       \<and> (\<not> hidden hst \<longrightarrow>
            \<not> truthy (backgroundTimer (orch (visibilitychange hst w)))
          \<and> (\<forall>h. backgroundTimer (orch w) = Some h \<and> h \<noteq> 0 \<longrightarrow>
                 backgroundTimer (orch (visibilitychange hst w)) = None
               \<and> h \<notin> fst ` set (intervals (sched (visibilitychange hst w))))
          \<and> set (intervals (sched (visibilitychange hst w))) \<subseteq> set (intervals (sched w))
          \<and> (truthy (animationId (orch w)) \<longrightarrow>
                 animationId (orch (visibilitychange hst w)) = animationId (orch w)
               \<and> frames (sched (visibilitychange hst w)) = frames (sched w))
          \<and> (\<not> truthy (animationId (orch w)) \<and> outputCanvas (orch w) \<noteq> None
               \<and> outputCtx (orch w) \<noteq> None \<longrightarrow>
                 (\<exists>h. animationId (orch (visibilitychange hst w)) = Some h \<and> h \<noteq> 0
                    \<and> frames (sched (visibilitychange hst w)) = frames (sched w) @ [h]))
          \<and> (\<not> truthy (animationId (orch w))
               \<and> (outputCanvas (orch w) = None \<or> outputCtx (orch w) = None) \<longrightarrow>
                 animationId (orch (visibilitychange hst w)) = animationId (orch w)
               \<and> frames (sched (visibilitychange hst w)) = frames (sched w)))"
proof (cases "hidden hst")
  case True
  then have v: "visibilitychange hst w = startBackgroundStreaming w"
    using assms by (auto simp add: visibilitychange_def visibilityHandlerBody_def)
  show ?thesis
    unfolding v
    using True startBackgroundStreaming_foreground[of w] startBackgroundStreaming_idle[of w]
      startBackgroundStreaming_registers[OF assms(2), unfolded STREAMING_CONFIG_FPS_def]
    by simp
next
  case False
  define w0 where "w0 = stopBackgroundStreaming w"
  define w1 where "w1 = start w0"
  have o: "orch (visibilitychange hst w) = orch w1"
    and i: "intervals (sched (visibilitychange hst w)) = intervals (sched w1)"
    and f: "frames (sched (visibilitychange hst w)) = frames (sched w1)"
    using False assms
    by (auto simp add: visibilitychange_def visibilityHandlerBody_def Let_def w1_def w0_def
        kicks_keep_pumps play_keeps_pumps)
  note s0 = stopBackgroundStreaming_timer[of w] stopBackgroundStreaming_cleared[of w]
    stopBackgroundStreaming_frame[of w] stopBackgroundStreaming_subset[of w]
  note s1 = start_effect[of w0]
  have bt: "backgroundTimer (orch w1) = backgroundTimer (orch w0)"
    and iv: "intervals (sched w1) = intervals (sched w0)"
    using s1 by (simp_all add: w1_def)
  have fg: "animationId (orch w0) = animationId (orch w)" "frames (sched w0) = frames (sched w)"
    "outputCanvas (orch w0) = outputCanvas (orch w)" "outputCtx (orch w0) = outputCtx (orch w)"
    using s0(3) by (simp_all add: w0_def)
  have a: "\<not> truthy (backgroundTimer (orch w1))"
    using s0(1) by (simp add: bt w0_def)
  have b: "backgroundTimer (orch w1) = None \<and> h \<notin> fst ` set (intervals (sched w1))"
    if "backgroundTimer (orch w) = Some h \<and> h \<noteq> 0" for h
    using that s0(1) s0(2)[of h] by (simp add: bt iv w0_def truthy_def)
  have c: "set (intervals (sched w1)) \<subseteq> set (intervals (sched w))"
    using s0(4) by (simp add: iv w0_def)
  have d: "animationId (orch w1) = animationId (orch w) \<and> frames (sched w1) = frames (sched w)"
    if "truthy (animationId (orch w))
        \<or> (\<not> truthy (animationId (orch w)) \<and> (outputCanvas (orch w) = None \<or> outputCtx (orch w) = None))"
  proof -
    have "start w0 = w0" using s1 that by (auto simp add: fg)
    then show ?thesis by (simp add: w1_def fg)
  qed
  have e: "\<exists>h. animationId (orch w1) = Some h \<and> h \<noteq> 0 \<and> frames (sched w1) = frames (sched w) @ [h]"
    if "\<not> truthy (animationId (orch w)) \<and> outputCanvas (orch w) \<noteq> None \<and> outputCtx (orch w) \<noteq> None"
    using s1 that by (simp add: fg w1_def)
  show ?thesis
    unfolding o i f using False a b c d e by blast
qed

lemma backgroundPeriod_30: "backgroundPeriod 30 = 33"
proof -
  have e: "fl (1000 / 30) = 4691249611844267 / 2 ^ 47"
    by (subst fl_at[of 5]) (simp_all add: round_even_def Let_def)
  have f: "\<lfloor>4691249611844267 / 2 ^ 47 :: real\<rfloor> = 33" by simp
  show ?thesis unfolding backgroundPeriod_def e f by simp
qed

lemma streamingWorld_state:
  "visibilityHandler (orch streamingWorld)"
  "backgroundOptions (orch streamingWorld) = Some defaultBackgroundOptions"
  "outputCanvas (orch streamingWorld) \<noteq> None"
  "outputCtx (orch streamingWorld) \<noteq> None"
  "animationId (orch streamingWorld) = Some 2"
  "backgroundTimer (orch streamingWorld) = None"
  "frames (sched streamingWorld) = [2]"
  "intervals (sched streamingWorld) = []"
  by (simp_all add: streamingWorld_def orchestrator_eval)

lemma hiddenWorld_state:
  "visibilityHandler (orch (visibilitychange hiddenHost streamingWorld))"
  "backgroundOptions (orch (visibilitychange hiddenHost streamingWorld)) = Some defaultBackgroundOptions"
  "backgroundTimer (orch (visibilitychange hiddenHost streamingWorld)) = Some 4"
  "animationId (orch (visibilitychange hiddenHost streamingWorld)) = Some 2"
  "frames (sched (visibilitychange hiddenHost streamingWorld)) = [2]"
  "map fst (intervals (sched (visibilitychange hiddenHost streamingWorld))) = [3, 4]"
  "last (intervals (sched (visibilitychange hiddenHost streamingWorld))) = (4, background_tick, 33)"
  by (simp_all add: streamingWorld_def orchestrator_eval backgroundPeriod_30)

text \<open>
  The page with a running foreground pump becomes hidden and then visible again: the
  background timer 4 is registered with period 33 while request 2 stays pending; back in
  the foreground timer 4 is gone and request 2 is still the only one.
\<close>

theorem visibility_pumps_witness:
  "visibilityHandler (orch streamingWorld)
   \<and> backgroundOptions (orch streamingWorld) = Some defaultBackgroundOptions
   \<and> hidden hiddenHost \<and> \<not> hidden visibleHost
   \<and> outputCanvas (orch streamingWorld) \<noteq> None
   \<and> \<not> truthy (backgroundTimer (orch streamingWorld))
   \<and> animationId (orch (visibilitychange hiddenHost streamingWorld)) = Some 2
   \<and> frames (sched (visibilitychange hiddenHost streamingWorld)) = [2]
   \<and> (\<exists>h pre. backgroundTimer (orch (visibilitychange hiddenHost streamingWorld)) = Some h
         \<and> h \<noteq> 0
         \<and> intervals (sched (visibilitychange hiddenHost streamingWorld))
             = pre @ [(h, background_tick, 33)])
   \<and> backgroundTimer (orch
          (visibilitychange visibleHost (visibilitychange hiddenHost streamingWorld))) = None
   \<and> 4 \<notin> fst ` set (intervals (sched
          (visibilitychange visibleHost (visibilitychange hiddenHost streamingWorld))))
   \<and> animationId (orch (visibilitychange visibleHost (visibilitychange hiddenHost streamingWorld)))
       = Some 2
   \<and> frames (sched (visibilitychange visibleHost (visibilitychange hiddenHost streamingWorld)))
       = [2]"
proof -
  have h: "hidden hiddenHost" "\<not> hidden visibleHost"
    by (simp_all add: hiddenHost_def visibleHost_def)
  have idle: "\<not> truthy (backgroundTimer (orch streamingWorld))"
    by (simp add: streamingWorld_state truthy_def)
  have fps30: "(case fps defaultBackgroundOptions of None \<Rightarrow> 30 | Some f \<Rightarrow> f) = 30"
    by (simp add: defaultBackgroundOptions_def STREAMING_CONFIG_FPS_def)
  note to_hidden = visibility_pumps[OF streamingWorld_state(1,2), of hiddenHost]
  note to_visible = visibility_pumps[OF hiddenWorld_state(1,2), of visibleHost]
  from to_hidden h(1) streamingWorld_state(3,5,7) idle have a:
    "animationId (orch (visibilitychange hiddenHost streamingWorld)) = Some 2"
    "frames (sched (visibilitychange hiddenHost streamingWorld)) = [2]"
    "\<exists>h pre. backgroundTimer (orch (visibilitychange hiddenHost streamingWorld)) = Some h
         \<and> h \<noteq> 0
         \<and> intervals (sched (visibilitychange hiddenHost streamingWorld))
             = pre @ [(h, background_tick, 33)]"
    unfolding fps30 backgroundPeriod_30 by auto
  from to_visible h(2) hiddenWorld_state(3,4,5) have b:
    "backgroundTimer (orch
          (visibilitychange visibleHost (visibilitychange hiddenHost streamingWorld))) = None"
    "4 \<notin> fst ` set (intervals (sched
          (visibilitychange visibleHost (visibilitychange hiddenHost streamingWorld))))"
    "animationId (orch (visibilitychange visibleHost (visibilitychange hiddenHost streamingWorld)))
       = Some 2"
    "frames (sched (visibilitychange visibleHost (visibilitychange hiddenHost streamingWorld)))
       = [2]"
    by (simp_all add: truthy_def)
  from a b h idle streamingWorld_state(1,2,3) show ?thesis by simp
qed

section \<open>Monitoring (C9)\<close>

lemma analysisTimers_setInterval_analysis:
  "analysisTimers (snd (setInterval (analysis_tick c opts) p s))
     = analysisTimers s @ [Suc (lastHandle s)]"
  by (simp add: analysisTimers_def setInterval_def Let_def)

lemma analysisTimers_setInterval_background:
  "analysisTimers (snd (setInterval background_tick p s)) = analysisTimers s"
  by (simp add: analysisTimers_def setInterval_def Let_def)

lemma analysisTimers_clearInterval:
  "analysisTimers (clearInterval h s) = filter (\<lambda>k. k \<noteq> h) (analysisTimers s)"
  by (simp add: analysisTimers_def clearInterval_def filter_map comp_def conj_commute)

lemma fst_setInterval: "fst (setInterval task p s) = Suc (lastHandle s)"
  by (simp add: setInterval_def Let_def)

lemma inv_start: "monitoring_inv ms \<Longrightarrow> monitoring_inv (startMonitoring c opts ms)"
  by (auto simp add: monitoring_inv_def startMonitoring_def Let_def
      analysisTimers_setInterval_analysis fst_setInterval split: option.splits)

lemma inv_stop: "monitoring_inv ms \<Longrightarrow> monitoring_inv (stopMonitoring ms)"
  by (auto simp add: monitoring_inv_def stopMonitoring_def Let_def truthy_def
      analysisTimers_clearInterval split: option.splits)

lemma inv_reset: "monitoring_inv ms \<Longrightarrow> monitoring_inv (reset ms)"
  using inv_stop[of ms] by (simp add: reset_def Let_def monitoring_inv_def)

lemma reachable_inv: "monitoring_reachable ms \<Longrightarrow> monitoring_inv ms"
proof (induction rule: monitoring_reachable.induct)
  case mr_init
  show ?case by (simp add: monitoring_inv_def newManager_def newScheduler_def analysisTimers_def)
next
  case (mr_other m s s' h p)
  then show ?case by (simp add: monitoring_inv_def)
qed (simp_all add: inv_start inv_stop inv_reset)

lemma start_twice: "startMonitoring c2 o2 (startMonitoring c1 o1 ms) = startMonitoring c1 o1 ms"
  by (simp add: startMonitoring_def Let_def)

lemma stop_idle: "monitoring_inv ms \<Longrightarrow> \<not> isAnalyzing (fst ms) \<Longrightarrow> stopMonitoring ms = ms"
  by (cases ms) (simp add: monitoring_inv_def stopMonitoring_def Let_def truthy_def)

lemma start_one_timer:
  "monitoring_inv ms \<Longrightarrow> length (analysisTimers (snd (startMonitoring c opts ms))) = 1"
  using inv_start[of ms c opts]
  by (auto simp add: monitoring_inv_def startMonitoring_def Let_def split: option.splits if_splits)

lemma stop_after_start:
  assumes "monitoring_inv ms"
  shows "\<not> isAnalyzing (fst (stopMonitoring (startMonitoring c opts ms)))"
    and "analysisIntervalHandle (fst (stopMonitoring (startMonitoring c opts ms))) = None"
    and "analysisTimers (snd (stopMonitoring (startMonitoring c opts ms))) = []"
proof -
  have i: "monitoring_inv (stopMonitoring (startMonitoring c opts ms))"
    by (simp add: inv_start inv_stop assms)
  show n: "\<not> isAnalyzing (fst (stopMonitoring (startMonitoring c opts ms)))"
    by (simp add: stopMonitoring_def Let_def)
  with i show h: "analysisIntervalHandle (fst (stopMonitoring (startMonitoring c opts ms))) = None"
    by (simp add: monitoring_inv_def)
  with i show "analysisTimers (snd (stopMonitoring (startMonitoring c opts ms))) = []"
    by (simp add: monitoring_inv_def)
qed

text \<open>
  Claim C9. In every state that the manager and the event loop can reach: a second
  \<^verbatim>\<open>startMonitoring\<close> changes nothing, and exactly one analysis timer is registered
  afterwards; \<^verbatim>\<open>stopMonitoring\<close> while not monitoring changes nothing;
  \<^verbatim>\<open>stopMonitoring\<close> after \<^verbatim>\<open>startMonitoring\<close> leaves the manager idle with no handle
  and no analysis timer registered.
\<close>

theorem monitoring_idempotent:
  assumes "monitoring_reachable ms"
  shows "startMonitoring c2 o2 (startMonitoring c1 o1 ms) = startMonitoring c1 o1 ms
       \<and> length (analysisTimers (snd (startMonitoring c2 o2 (startMonitoring c1 o1 ms)))) = 1
       \<and> (\<not> isAnalyzing (fst ms) \<longrightarrow> stopMonitoring ms = ms)
       \<and> \<not> isAnalyzing (fst (stopMonitoring (startMonitoring c1 o1 ms)))
       \<and> analysisIntervalHandle (fst (stopMonitoring (startMonitoring c1 o1 ms))) = None
       \<and> analysisTimers (snd (stopMonitoring (startMonitoring c1 o1 ms))) = []"
  using reachable_inv[OF assms]
  by (simp add: start_twice start_one_timer stop_idle stop_after_start)

theorem monitoring_idempotent_witness:
  "monitoring_reachable (newManager, newScheduler)
   \<and> \<not> isAnalyzing (fst (newManager, newScheduler))
   \<and> stopMonitoring (newManager, newScheduler) = (newManager, newScheduler)
   \<and> length (analysisTimers (snd (startMonitoring output_canvas noOptions
        (startMonitoring output_canvas noOptions (newManager, newScheduler))))) = 1"
proof -
  have idle: "\<not> isAnalyzing (fst (newManager, newScheduler))"
    by (simp add: newManager_def)
  from monitoring_idempotent[OF mr_init, of output_canvas noOptions output_canvas noOptions] idle
  show ?thesis using mr_init by blast
qed

section \<open>Stream validation (C5, C4)\<close>

text \<open>
  Claim C5. \<^verbatim>\<open>performValidation\<close> returns at once, before any timer is armed or video
  element attached, exactly when the stream is inactive, or has no video track, or audio
  is required and it has no audio track, or its first video track is not live. The
  result then has \<open>isStable = False\<close>, frame count 0 and the error tag of the first
  cause that applies; the four tags are pairwise distinct. In every other case the
  promise is pending with its timer armed and its video element attached.
\<close>

theorem performValidation_sync_failures:
  "((\<exists>r. performValidation stream minFrames timeout audio sig now = Inl r)
      \<longleftrightarrow> (\<not> active stream \<or> videoTracks stream = [] \<or> (audio \<and> audioTracks stream = [])
           \<or> hd (videoTracks stream) \<noteq> live))
   \<and> (\<forall>r. performValidation stream minFrames timeout audio sig now = Inl r \<longrightarrow>
         \<not> isStable r \<and> frameCount r = 0 \<and>
         error r = Some (if \<not> active stream then ''Stream is not active''
                         else if videoTracks stream = [] then ''No video tracks found''
                         else if audio \<and> audioTracks stream = [] then ''No audio tracks found''
                         else ''Video track not live: ended''))
   \<and> (\<forall>v. performValidation stream minFrames timeout audio sig now = Inr v \<longrightarrow>
         timerArmed v \<and> sinkAttached v \<and> settled v = None)
   \<and> distinct [''Stream is not active'', ''No video tracks found'', ''No audio tracks found'',
               ''Video track not live: ended'']"
proof -
  have name: "hd (videoTracks stream) \<noteq> live
      \<Longrightarrow> trackStateName (hd (videoTracks stream)) = ''ended''"
    by (cases "hd (videoTracks stream)") simp_all
  show ?thesis
    by (auto simp add: performValidation_def name)
qed

theorem performValidation_sync_failures_witness:
  "performValidation deadStream 5 3000 True 0 0
     = Inl \<lparr>isStable = False, frameCount = 0, timeElapsed = 0,
            error = Some ''Stream is not active''\<rparr>
   \<and> \<not> active deadStream
   \<and> (\<exists>v. performValidation liveStream 5 3000 False 0 0 = Inr v \<and> timerArmed v \<and> sinkAttached v)"
proof -
  have dead: "\<not> active deadStream" by (simp add: deadStream_def)
  have a: "performValidation deadStream 5 3000 True 0 0
     = Inl \<lparr>isStable = False, frameCount = 0, timeElapsed = 0,
            error = Some ''Stream is not active''\<rparr>"
    by (simp add: performValidation_def dead)
  have b: "\<exists>v. performValidation liveStream 5 3000 False 0 0 = Inr v"
    by (simp add: performValidation_def liveStream_def)
  from performValidation_sync_failures[of deadStream 5 3000 True 0 0]
    performValidation_sync_failures[of liveStream 5 3000 False 0 0] a b dead
  show ?thesis by auto
qed

lemmas stabilizer_eval =
  twoCalls_def bothTimeOut_def firstSeesAbort_def validateStreamStability_def newStabilizer_def
  liveStream_def videoOnly_def abort_def performValidation_def resume_def timeoutFires_def
  timeupdate_def onValidation_def onTimeout_def onTimeUpdate_def resolve_def cleanup_def
  callResult_def innerResult_def isAborted_def Let_def

text \<open>
  Claim C4 at a failing input. Two calls for the same live stream are made 10ms apart and
  the hidden video elements emit no \<^verbatim>\<open>timeupdate\<close>. The second call aborts the controller
  of the first, but only the \<^verbatim>\<open>timeupdate\<close> listener reads the abort signal: the first
  call stays pending until its own timeout and then resolves with the timeout result.
  Both calls end with a result that is not the aborted one.
\<close>

theorem superseded_call_times_out:
  "abortedControllers twoCalls = [0]
   \<and> callResult twoCalls 0 = None
   \<and> callResult bothTimeOut 0
       = Some \<lparr>isStable = False, frameCount = 0, timeElapsed = 3000,
               error = Some ''Validation timeout''\<rparr>
   \<and> callResult bothTimeOut 1
       = Some \<lparr>isStable = False, frameCount = 0, timeElapsed = 3000,
               error = Some ''Validation timeout''\<rparr>
   \<and> \<not> isAborted (the (callResult bothTimeOut 0))
   \<and> \<not> isAborted (the (callResult bothTimeOut 1))"
  by (simp add: stabilizer_eval)

text \<open>
  When the first video element does emit a \<^verbatim>\<open>timeupdate\<close> after the second call, the
  first call resolves as aborted: the path the code provides for supersession.
\<close>

lemma superseded_call_sees_abort:
  "callResult firstSeesAbort 0
     = Some \<lparr>isStable = False, frameCount = 0, timeElapsed = 40,
             error = Some ''Validation aborted''\<rparr>"
  by (simp add: stabilizer_eval)

section \<open>Handing the stream over (C8)\<close>

lemmas hook_eval =
  failedCreation_def recreated_def overlapping_def createStream_def createStreamResumed_def
  retryFires_def stopStream_def tracksEnded_def addTrack_def newHook_def liveStream_def
  otherStream_def timedOut_def stable_def Let_def

text \<open>
  Claim C8 as stated fails. The first validation fails, so one timer of 1000ms is armed
  and nothing is handed over; the stream is stopped before the timer fires; the timer's
  callback finds no stream and \<^verbatim>\<open>onStreamReady\<close> is never called, while no timer remains.
\<close>

theorem handover_skipped_counterexample:
  "\<not> isStable timedOut
   \<and> retryTimers failedCreation = [1000]
   \<and> readyCalls failedCreation = []
   \<and> readyCalls (retryFires (stopStream failedCreation)) = []
   \<and> retryTimers (retryFires (stopStream failedCreation)) = []"
  by (simp add: hook_eval)

text \<open>
  The guard of \<^verbatim>\<open>createStream\<close> reads the flag that only a resumed call sets: calls made
  while another is suspended pass it as well.
\<close>

lemma createStream_guard:
  "fst (createStream canvas st) \<longleftrightarrow> canvas \<and> \<not> streamCreatedRef st"
  "streamCreatedRef (snd (createStream canvas st)) = streamCreatedRef st"
  "streamRef (snd (createStream canvas st)) = streamRef st"
  "readyCalls (snd (createStream canvas st)) = readyCalls st"
  "retryTimers (snd (createStream canvas st)) = retryTimers st"
  by (simp_all add: createStream_def)

lemma overlapping_creations:
  "fst (createStream True newHook)"
  "fst (createStream True (snd (createStream True newHook)))"
  "suspended overlapping = 2"
  by (simp_all add: hook_eval)

text \<open>
  Claim C8, amended. For a creation with a callback that has passed the guard and whose
  awaits have settled with a captured stream: if the first validation reports the stream
  stable, the callback is called at once with the stream and no timer is armed; if it
  fails, the callback is not called, no validation is repeated, and exactly one timer, of
  1000ms, is armed. In both cases the hook now holds the stream. Whenever an armed timer
  fires, in whatever state the hook is then, the callback is called once with the stream
  the hook holds at that moment if it holds one and that stream is active, and is not
  called otherwise; the timer is gone and no other is armed, so nothing further happens.
  The stream handed over by the timer is the one the hook holds when it fires, which is
  the creation's own stream only if it was not stopped or replaced in between.
\<close>

theorem createStream_handover:
  fixes stream :: MediaStream and result :: StreamStabilizationResult and st s :: HookState
  assumes "0 < suspended st"
  defines "st' \<equiv> snd (createStreamResumed True (captured stream result) st)"
  shows "(isStable result \<longrightarrow>
            readyCalls st' = readyCalls st @ [addTrack stream] \<and> retryTimers st' = retryTimers st)
       \<and> (\<not> isStable result \<longrightarrow>
            readyCalls st' = readyCalls st \<and> retryTimers st' = retryTimers st @ [1000])
       \<and> streamRef st' = Some (addTrack stream) \<and> streamCreatedRef st'
       \<and> suspended st' = suspended st - 1
       \<and> (retryTimers s \<noteq> [] \<longrightarrow>
            readyCalls (retryFires s) =
              readyCalls s @ (case streamRef s of
                                None \<Rightarrow> []
                              | Some held \<Rightarrow> if active held then [held] else [])
          \<and> retryTimers (retryFires s) = tl (retryTimers s)
          \<and> streamRef (retryFires s) = streamRef s
          \<and> streamCreatedRef (retryFires s) = streamCreatedRef s
          \<and> suspended (retryFires s) = suspended s)
       \<and> (retryTimers s = [] \<longrightarrow> retryFires s = s)"
  using assms(1) unfolding st'_def
  by (cases "retryTimers s")
     (auto simp add: createStreamResumed_def Let_def retryFires_def split: option.splits)

text \<open>
  A creation that is handed over at once; a creation that fails and is handed over by
  its timer; and a failed creation whose stream is stopped and replaced by another
  creation before the timer fires: the timer then hands over the other stream.
\<close>

theorem createStream_handover_witness:
  "0 < suspended (snd (createStream True newHook))
   \<and> isStable stable \<and> \<not> isStable timedOut
   \<and> readyCalls (snd (createStreamResumed True (captured liveStream stable)
                        (snd (createStream True newHook)))) = [addTrack liveStream]
   \<and> retryTimers (snd (createStreamResumed True (captured liveStream stable)
                         (snd (createStream True newHook)))) = []
   \<and> readyCalls failedCreation = [] \<and> retryTimers failedCreation = [1000]
   \<and> readyCalls (retryFires failedCreation) = [addTrack liveStream]
   \<and> retryTimers (retryFires failedCreation) = []
   \<and> retryTimers recreated = [1000]
   \<and> readyCalls (retryFires recreated) = [addTrack otherStream, addTrack otherStream]"
proof -
  have g: "0 < suspended (snd (createStream True newHook))"
    "readyCalls (snd (createStream True newHook)) = []"
    "retryTimers (snd (createStream True newHook)) = []"
    by (simp_all add: hook_eval)
  have r: "isStable stable" "\<not> isStable timedOut"
    by (simp_all add: stable_def timedOut_def)
  have f: "retryTimers failedCreation \<noteq> []" "streamRef failedCreation = Some (addTrack liveStream)"
    "active (addTrack liveStream)"
    by (simp_all add: hook_eval)
  have c: "retryTimers recreated \<noteq> []" "retryTimers recreated = [1000]"
    "streamRef recreated = Some (addTrack otherStream)" "active (addTrack otherStream)"
    "readyCalls recreated = [addTrack otherStream]"
    by (simp_all add: hook_eval)
  note ok = createStream_handover[OF g(1), where stream = liveStream and result = stable
      and s = failedCreation]
  note ko = createStream_handover[OF g(1), where stream = liveStream and result = timedOut
      and s = recreated]
  from ok r(1) g(2,3) f have a:
    "readyCalls (snd (createStreamResumed True (captured liveStream stable)
                        (snd (createStream True newHook)))) = [addTrack liveStream]"
    "retryTimers (snd (createStreamResumed True (captured liveStream stable)
                         (snd (createStream True newHook)))) = []"
    "readyCalls (retryFires failedCreation) = readyCalls failedCreation @ [addTrack liveStream]"
    "retryTimers (retryFires failedCreation) = tl (retryTimers failedCreation)"
    by simp_all
  from ko r(2) g(2,3) have b:
    "readyCalls failedCreation = []" "retryTimers failedCreation = [1000]"
    by (simp_all add: failedCreation_def)
  from ko c have d:
    "readyCalls (retryFires recreated) = [addTrack otherStream, addTrack otherStream]"
    by simp
  from g(1) r a b c(2) d show ?thesis by simp
qed

section \<open>Complexity analysis (C6)\<close>





lemma temporalLoop_sum:
  assumes "length cur = 4 * n" and "k \<le> n"
  shows "temporalLoop cur prev (4 * k) acc
           = acc + (\<Sum>p = k..<n. \<bar>gray cur (4 * p) - gray prev (4 * p)\<bar>)"
  using assms(2)
proof (induction "n - k" arbitrary: k acc)
  case 0
  then have "k = n" by simp
  then show ?case using assms(1) by (simp add: temporalLoop.simps[of cur prev "4 * n"])
next
  case (Suc d)
  then have lt: "k < n" and d: "d = n - Suc k" and le: "Suc k \<le> n" by simp_all
  have step: "temporalLoop cur prev (4 * k) acc
      = temporalLoop cur prev (4 * Suc k) (acc + \<bar>gray cur (4 * k) - gray prev (4 * k)\<bar>)"
    using lt assms(1) by (subst temporalLoop.simps) (simp add: add.commute)
  show ?case
    unfolding step Suc.hyps(1)[OF d le]
    using lt by (simp add: sum.atLeast_Suc_lessThan add.assoc)
qed

lemma luminance_gray: "luminance img p = gray (idata img) (4 * p)"
  by (simp add: luminance_def gray_def)

lemma temporal_refines_spec:
  assumes "well_formed cur" "previousFrameData m = Some prev"
    "iwidth prev = iwidth cur" "iheight prev = iheight cur"
  shows "calculateTemporalComplexity m cur = spec_temporal cur prev"
proof -
  have len: "length (idata cur) = 4 * (iwidth cur * iheight cur)"
    using assms(1) by (simp add: well_formed_def)
  have "temporalLoop (idata cur) (idata prev) (4 * 0) 0
      = 0 + (\<Sum>p = 0..<iwidth cur * iheight cur. \<bar>gray (idata cur) (4 * p) - gray (idata prev) (4 * p)\<bar>)"
    by (rule temporalLoop_sum[OF len]) simp
  then have loop: "temporalLoop (idata cur) (idata prev) 0 0
      = (\<Sum>p < iwidth cur * iheight cur. \<bar>luminance cur p - luminance prev p\<bar>)"
    by (simp add: luminance_gray atLeast0LessThan)
  show ?thesis
    using assms(2,3,4) by (simp add: calculateTemporalComplexity_def Let_def loop spec_temporal_def len)
qed



section \<open>Uniform canvases\<close>


lemma nth_concat_replicate:
  "length xs = m \<Longrightarrow> p < n \<Longrightarrow> k < m \<Longrightarrow> concat (replicate n xs) ! (m * p + k) = xs ! k"
proof (induction n arbitrary: p)
  case 0
  then show ?case by simp
next
  case (Suc n)
  show ?case
  proof (cases p)
    case 0
    then show ?thesis using Suc.prems by (simp add: nth_append)
  next
    case (Suc q)
    then have "q < n" using Suc.prems(2) by simp
    from Suc.IH[OF Suc.prems(1) this Suc.prems(3)] show ?thesis
      using Suc Suc.prems(1) by (simp add: nth_append)
  qed
qed

lemma gray_uniform:
  assumes "p < n"
  shows "gray (concat (replicate n [g, g, g, a])) (4 * p) = real g"
proof -
  have l: "length [g, g, g, a] = 4" by simp
  have "concat (replicate n [g, g, g, a]) ! (4 * p + 0) = [g, g, g, a] ! 0"
       "concat (replicate n [g, g, g, a]) ! (4 * p + 1) = [g, g, g, a] ! 1"
       "concat (replicate n [g, g, g, a]) ! (4 * p + 2) = [g, g, g, a] ! 2"
    by (rule nth_concat_replicate[OF l assms], simp)+
  then show ?thesis by (simp add: gray_def)
qed

lemma concat_replicate_replicate:
  "concat (replicate m (concat (replicate n xs))) = concat (replicate (m * n) xs)"
  by (induction m) (simp_all add: replicate_add)

lemma getImageData_uniform:
  "getImageData (uniformCanvas g) (\<lambda>x y. (g, g, g, 255)) 128 128 = Inr (uniformImage g)"
proof -
  have px: "map (\<lambda>x. pixelBytes (uniformCanvas g) (\<lambda>x y. (g, g, g, 255)) x y) [0..<128]
      = replicate 128 [g, g, g, 255]" if "y < 128" for y
    using that by (intro replicate_eqI) (auto simp add: pixelBytes_def uniformCanvas_def)
  have rows: "map (\<lambda>y. concat (map (\<lambda>x. pixelBytes (uniformCanvas g) (\<lambda>x y. (g, g, g, 255)) x y) [0..<128])) [0..<128]
      = replicate 128 (concat (replicate 128 [g, g, g, 255]))"
    by (intro replicate_eqI) (auto simp add: px)
  show ?thesis
    by (simp add: getImageData_def uniformImage_def rows concat_replicate_replicate)
qed

lemma fold_keeps_fst:
  assumes "\<And>x acc. x \<in> set xs \<Longrightarrow> fst (f x acc) = fst acc"
  shows "fst (fold f xs acc) = fst acc"
  using assms by (induction xs arbitrary: acc) simp_all

lemma spatialStep_uniform:
  assumes "1 \<le> y" "y < 127" "1 \<le> x" "x < 127"
  shows "fst (spatialStep (uniformImage g) y x acc) = fst acc"
proof -
  let ?d = "concat (replicate 16384 [g, g, g, 255])"
  have b: "y * 128 + x < 16384" "y * 128 + x + 1 < 16384" "y * 128 + x + 128 < 16384"
    using assms by simp_all
  have i: "(y * 128 + x) * 4 = 4 * (y * 128 + x)"
    "(y * 128 + x) * 4 + 4 = 4 * (y * 128 + x + 1)"
    "(y * 128 + x) * 4 + 128 * 4 = 4 * (y * 128 + x + 128)" by simp_all
  have c: "gray ?d ((y * 128 + x) * 4) = real g"
    unfolding i(1) by (rule gray_uniform[OF b(1)])
  have r: "gray ?d ((y * 128 + x) * 4 + 4) = real g"
    unfolding i(2) by (rule gray_uniform[OF b(2)])
  have bt: "gray ?d ((y * 128 + x) * 4 + 128 * 4) = real g"
    unfolding i(3) by (rule gray_uniform[OF b(3)])
  have w: "iwidth (uniformImage g) = 128" "idata (uniformImage g) = ?d"
    by (simp_all add: uniformImage_def)
  show ?thesis
    unfolding spatialStep_def Let_def w c r bt by simp
qed

lemma spatial_uniform: "calculateSpatialComplexity (uniformImage g) = 0"
proof -
  have inner: "fst (fold (spatialStep (uniformImage g) y) [1..<127] acc) = fst acc"
    if "y \<in> set [1..<127]" for y acc
  proof (rule fold_keeps_fst)
    fix x a
    assume "x \<in> set [1..<127]"
    with that show "fst (spatialStep (uniformImage g) y x a) = fst a"
      by (intro spatialStep_uniform) simp_all
  qed
  have "fst (fold (\<lambda>y. fold (spatialStep (uniformImage g) y) [1..<127]) [1..<127] (0, 0)) = fst (0::real, 0::nat)"
    by (rule fold_keeps_fst) (rule inner)
  moreover have "iwidth (uniformImage g) - 1 = 127" "iheight (uniformImage g) - 1 = 127"
    by (simp_all add: uniformImage_def)
  ultimately show ?thesis
    by (simp add: calculateSpatialComplexity_def Let_def)
qed

lemma luminance_uniform: "p < 16384 \<Longrightarrow> luminance (uniformImage g) p = real g"
  by (simp add: luminance_gray uniformImage_def gray_uniform)

lemma length_concat_replicate: "length (concat (replicate n xs)) = n * length xs"
  by (induction n) simp_all

lemma well_formed_uniform: "well_formed (uniformImage g)"
  by (simp add: well_formed_def uniformImage_def length_concat_replicate)

lemma spec_temporal_uniform:
  "spec_temporal (uniformImage g) (uniformImage g0) = \<bar>real g - real g0\<bar> / 255"
proof -
  have "(\<Sum>p < 16384. \<bar>luminance (uniformImage g) p - luminance (uniformImage g0) p\<bar>)
      = (\<Sum>p < (16384::nat). \<bar>real g - real g0\<bar>)"
    by (intro sum.cong) (simp_all add: luminance_uniform)
  then show ?thesis
    by (simp add: spec_temporal_def uniformImage_def)
qed

lemma temporal_uniform:
  assumes "previousFrameData m = Some (uniformImage g0)"
  shows "calculateTemporalComplexity m (uniformImage g) = \<bar>real g - real g0\<bar> / 255"
proof -
  have "calculateTemporalComplexity m (uniformImage g) = spec_temporal (uniformImage g) (uniformImage g0)"
    by (rule temporal_refines_spec[OF well_formed_uniform assms]) (simp_all add: uniformImage_def)
  then show ?thesis by (simp add: spec_temporal_uniform)
qed

lemma sample_uniform:
  "analyzeFrameComplexity m (uniformCanvas g) =
     (let temporal = calculateTemporalComplexity m (uniformImage g);
          pushed = complexityHistory m @ [temporal / 2]
      in Inr (\<lparr>spatialComplexity = 0, temporalComplexity = temporal,
                overallComplexity = temporal / 2,
                frameVariance = calculateFrameVariance (uniformImage g),
                isLowComplexity = (temporal / 2 < 0.2)\<rparr>,
              m\<lparr>complexityHistory := (if length pushed > maxHistorySize m then tl pushed else pushed),
                previousFrameData := Some (uniformImage g)\<rparr>))"
proof -
  have c: "context2d (uniformCanvas g) = Some (\<lambda>x y. (g, g, g, 255))"
    "width (uniformCanvas g) = 128" "height (uniformCanvas g) = 128"
    by (simp_all add: uniformCanvas_def)
  show ?thesis
    unfolding analyzeFrameComplexity_def c
    by (simp add: Let_def getImageData_uniform spatial_uniform)
qed

lemma sampledBlack_eq:
  "sampledBlack = newManager\<lparr>complexityHistory := [0], previousFrameData := Some (uniformImage 0)\<rparr>"
  by (simp add: sampledBlack_def sample_uniform Let_def calculateTemporalComplexity_def newManager_def)

lemma sample_gray_after_black:
  "analyzeFrameComplexity sampledBlack (uniformCanvas 90) =
     Inr (\<lparr>spatialComplexity = 0, temporalComplexity = 6 / 17, overallComplexity = 3 / 17,
           frameVariance = calculateFrameVariance (uniformImage 90), isLowComplexity = True\<rparr>,
          newManager\<lparr>complexityHistory := [0, 3 / 17],
                     previousFrameData := Some (uniformImage 90)\<rparr>)"
proof -
  have p: "previousFrameData sampledBlack = Some (uniformImage 0)"
    by (simp add: sampledBlack_eq)
  have t: "calculateTemporalComplexity sampledBlack (uniformImage 90) = 6 / 17"
    using temporal_uniform[OF p, of 90] by simp
  show ?thesis
    unfolding sample_uniform t by (simp add: Let_def sampledBlack_eq newManager_def)
qed


section \<open>Complexity injection (C3)\<close>

text \<open>The configured minimum complexity threshold is never read.\<close>

lemma injectComplexity_ignores_threshold:
  "injectComplexity gens m canvas (options\<lparr>minComplexityThreshold := x\<rparr>)
     = injectComplexity gens m canvas options"
  by (simp add: injectComplexity_def)

text \<open>What decides the injection: the fixed 0.2 gate and the intensity.\<close>

lemma injectComplexity_decision:
  assumes "context2d canvas = Some ctx"
    and "analyzeFrameComplexity m canvas = Inr (metrics, m1)"
  shows "injectComplexity gens m canvas options =
           (let target = (case targetComplexity options of None \<Rightarrow> 0.3 | Some t \<Rightarrow> t);
                ctype = (case complexityType options of None \<Rightarrow> ''adaptive'' | Some t \<Rightarrow> t);
                maxI = (case maxIntensity options of None \<Rightarrow> 0.15 | Some i \<Rightarrow> i);
                intensity = min ((target - overallComplexity metrics) * 2) maxI
            in if overallComplexity metrics < 0.2 \<and> intensity > 0.01
               then Inr (m1, canvas\<lparr>context2d :=
                           Some (applyComplexityInjection gens ctx canvas ctype intensity)\<rparr>)
               else Inr (m1, canvas))"
proof -
  have "isLowComplexity metrics \<longleftrightarrow> overallComplexity metrics < 0.2"
    using assms(2)
    by (auto simp add: analyzeFrameComplexity_def Let_def split: option.splits sum.splits)
  then show ?thesis
    using assms by (simp add: injectComplexity_def Let_def)
qed

text \<open>
  Claim C3 at a failing input. The options are the ones the orchestrator configures:
  target 0.3, threshold 0.15, maximum intensity 0.2, adaptive. The manager has sampled a
  black 128x128 canvas; the canvas now shows the uniform grey 90. The measured overall
  complexity is 3/17 (about 0.176), which is not below the threshold 0.15, and yet the
  surface is perturbed, at intensity 0.2: the gate is the fixed 0.2, not the threshold.
\<close>

theorem injection_above_threshold:
  "minComplexityThreshold configuredOptions = Some 0.15
   \<and> (\<exists>metrics m'. analyzeFrameComplexity sampledBlack (uniformCanvas 90) = Inr (metrics, m')
         \<and> overallComplexity metrics = 3 / 17)
   \<and> \<not> (3 / 17 < (0.15 :: real))
   \<and> (\<exists>m'. injectComplexity gens sampledBlack (uniformCanvas 90) configuredOptions =
         Inr (m', (uniformCanvas 90)\<lparr>context2d :=
                    Some (applyComplexityInjection gens (\<lambda>x y. (90, 90, 90, 255)) (uniformCanvas 90)
                            ''adaptive'' 0.2)\<rparr>))"
proof -
  have c: "context2d (uniformCanvas 90) = Some (\<lambda>x y. (90, 90, 90, 255))"
    by (simp add: uniformCanvas_def)
  have "injectComplexity gens sampledBlack (uniformCanvas 90) configuredOptions =
         Inr (newManager\<lparr>complexityHistory := [0, 3 / 17],
                          previousFrameData := Some (uniformImage 90)\<rparr>,
              (uniformCanvas 90)\<lparr>context2d :=
                    Some (applyComplexityInjection gens (\<lambda>x y. (90, 90, 90, 255)) (uniformCanvas 90)
                            ''adaptive'' 0.2)\<rparr>)"
    unfolding injectComplexity_decision[OF c sample_gray_after_black]
    by (simp add: configuredOptions_def Let_def)
  then show ?thesis
    by (simp add: sample_gray_after_black configuredOptions_def)
qed

end
